theory Spec2Isabelle
  imports Main
begin

section \<open>JavaScript values and strings\<close>

text \<open>
  The controllers read untyped request bodies and build JSON responses, so values are
  modelled dynamically.  A string is a list of code units; a \<^typ>\<open>char\<close> stands for
  one code unit below 256 (the Latin-1 range), which is the domain of the string
  functions below.  Numbers are represented by integers: no function of the controllers
  inspects a number beyond its type and whether it is zero.
\<close>

datatype jsval =
    JUndefined
  | JNull
  | JBool bool
  | JNum int
  | JStr string
  | JArr "jsval list"
  | JObj "(string \<times> jsval) list"

type_synonym jsobj = "(string \<times> jsval) list"

text \<open>Truthiness, as used by \<open>!v\<close>, \<open>a || b\<close> and \<open>a && b\<close>.\<close>

fun truthy :: "jsval \<Rightarrow> bool" where
  "truthy JUndefined = False"
| "truthy JNull = False"
| "truthy (JBool b) = b"
| "truthy (JNum n) = (n \<noteq> 0)"
| "truthy (JStr s) = (s \<noteq> [])"
| "truthy (JArr _) = True"
| "truthy (JObj _) = True"

text \<open>Property read \<open>o.k\<close> on an object literal; a missing key reads as \<open>undefined\<close>.\<close>

definition obj_get :: "jsobj \<Rightarrow> string \<Rightarrow> jsval" where
  "obj_get obj k = (case map_of obj k of None \<Rightarrow> JUndefined | Some v \<Rightarrow> v)"

text \<open>
  Property read \<open>v.k\<close> on a value that is known to be truthy: primitives and arrays
  have no such own property and read as \<open>undefined\<close>.
\<close>

fun get_prop :: "jsval \<Rightarrow> string \<Rightarrow> jsval" where
  "get_prop (JObj obj) k = obj_get obj k"
| "get_prop _ k = JUndefined"

text \<open>\<open>JSON.stringify\<close> omits the properties whose value is \<open>undefined\<close>.\<close>

definition json_keys :: "jsobj \<Rightarrow> string list" where
  "json_keys obj = map fst (filter (\<lambda>kv. snd kv \<noteq> JUndefined) obj)"

text \<open>A string that may be absent (\<open>undefined\<close>), and \<open>a || b\<close> on such strings.\<close>

definition opt_str :: "string option \<Rightarrow> jsval" where
  "opt_str v = (case v of None \<Rightarrow> JUndefined | Some s \<Rightarrow> JStr s)"

definition falsy_str :: "string option \<Rightarrow> bool" where
  "falsy_str v = (v = None \<or> v = Some [])"

definition or_str :: "string option \<Rightarrow> string option \<Rightarrow> string option" where
  "or_str a b = (if falsy_str a then b else a)"

definition or_default :: "string option \<Rightarrow> string \<Rightarrow> string" where
  "or_default a d = (case a of None \<Rightarrow> d | Some s \<Rightarrow> if s = [] then d else s)"

text \<open>
  \<open>String.prototype.trim\<close> removes white space and line terminators from both ends:
  in this range TAB, LF, VT, FF, CR, SPACE and NBSP.
\<close>

definition js_space :: "char \<Rightarrow> bool" where
  "js_space c = ((of_char c :: nat) \<in> {9, 10, 11, 12, 13, 32, 160})"

definition js_trim :: "string \<Rightarrow> string" where
  "js_trim s = rev (dropWhile js_space (rev (dropWhile js_space s)))"

text \<open>
  \<open>String.prototype.toLowerCase\<close>: A to Z, and the Latin-1 capitals from U+00C0 to
  U+00DE except the multiplication sign U+00D7, move up by 32.
\<close>

definition lower_char :: "char \<Rightarrow> char" where
  "lower_char c =
     (let n = (of_char c :: nat)
      in if (65 \<le> n \<and> n \<le> 90) \<or> (192 \<le> n \<and> n \<le> 222 \<and> n \<noteq> 215)
         then char_of (n + 32) else c)"

definition toLowerCase :: "string \<Rightarrow> string" where
  "toLowerCase s = map lower_char s"

text \<open>Decimal rendering of a non-negative integer inside a template literal.\<close>

definition digit_char :: "nat \<Rightarrow> char" where
  "digit_char d = char_of (48 + d)"

function show_nat :: "nat \<Rightarrow> string" where
  "show_nat n = (if n < 10 then [digit_char n] else show_nat (n div 10) @ [digit_char (n mod 10)])"
  by pat_completeness auto
termination
  by (relation "measure (\<lambda>n. n)") auto

declare show_nat.simps [simp del]

section \<open>Errors\<close>

text \<open>
  A thrown \<open>Error\<close> object with the properties the handlers read in their
  \<open>catch\<close> blocks.  \<open>statusCode\<close> is a number when present; \<open>errors\<close> holds the
  messages of a Mongoose \<open>ValidationError\<close> and \<open>keyPattern\<close> the key names of a
  duplicate-key error, each absent on other errors.
\<close>

record js_error =
  err_name :: string
  err_message :: string
  err_code :: jsval
  err_statusCode :: "nat option"
  err_summary :: jsval
  err_errors :: "string list option"
  err_keyPattern :: "string list option"

definition mk_error :: "string \<Rightarrow> js_error" where
  "mk_error msg =
     \<lparr> err_name = ''Error'', err_message = msg, err_code = JUndefined,
       err_statusCode = None, err_summary = JUndefined,
       err_errors = None, err_keyPattern = None \<rparr>"

record http_response =
  status :: nat
  body :: jsobj

section \<open>The job controller\<close>

subsection \<open>Pure helpers\<close>

text \<open>
  A captured output stream as \<open>runTenantScrape\<close> and \<open>runTenantUpdater\<close> resolve it:
  a string, or absent (\<open>undefined\<close> or \<open>null\<close>).
\<close>

datatype stream = StreamUndefined | StreamNull | StreamText string

fun stream_val :: "stream \<Rightarrow> jsval" where
  "stream_val StreamUndefined = JUndefined"
| "stream_val StreamNull = JNull"
| "stream_val (StreamText s) = JStr s"

definition maxLength :: nat where
  "maxLength = 8192"

fun truncateLog :: "stream \<Rightarrow> stream" where
  "truncateLog StreamUndefined = StreamUndefined"
| "truncateLog StreamNull = StreamNull"
| "truncateLog (StreamText s) =
     (if s = [] then StreamText s
      else if length s \<le> maxLength then StreamText s
      else StreamText (take maxLength s @ [CHR 0x0A] @ ''... [truncated ''
                         @ show_nat (length s - maxLength) @ '' chars]''))"

fun toBooleanOrUndefined :: "jsval \<Rightarrow> bool option" where
  "toBooleanOrUndefined JUndefined = None"
| "toBooleanOrUndefined JNull = None"
| "toBooleanOrUndefined (JBool b) = Some b"
| "toBooleanOrUndefined (JStr s) =
     (let normalized = toLowerCase (js_trim s)
      in if normalized \<in> set [''true'', ''1'', ''yes'', ''on''] then Some True
         else if normalized \<in> set [''false'', ''0'', ''no'', ''off''] then Some False
         else None)"
| "toBooleanOrUndefined _ = None"

definition parseIntegerOrUndefined :: "(jsval \<Rightarrow> int option) \<Rightarrow> jsval \<Rightarrow> int option" where
  "parseIntegerOrUndefined parseInt10 v =
     (if v = JUndefined \<or> v = JNull \<or> v = JStr [] then None else parseInt10 v)"

subsection \<open>Tenant context, collaborators and effects\<close>

text \<open>
  The resolved tenant context, with the fields the job controller reads.  Each is a
  string of the tenant record, or absent.
\<close>

record tenant_context =
  ctx_userId :: "string option"
  ctx_resourceId :: "string option"
  ctx_databaseUri :: "string option"
  ctx_botEndpoint :: "string option"
  ctx_vectorStorePath :: "string option"

record job_body =
  b_startUrl :: jsval
  b_sitemapUrl :: jsval
  b_embeddingModelName :: jsval
  b_collectionName :: jsval
  b_domain :: jsval
  b_mongoUri :: jsval
  b_respectRobots :: jsval
  b_aggressiveDiscovery :: jsval
  b_maxDepth :: jsval
  b_maxLinksPerPage :: jsval

text \<open>
  The request after the authentication middleware: \<open>req.body\<close>, \<open>req.tenantUserId\<close>
  (absent unless a tenant was selected), \<open>req.user.userId\<close> and \<open>req.user.role\<close>.
\<close>

record job_request =
  req_body :: job_body
  req_tenantUserId :: "string option"
  req_userId :: string
  req_role :: string

record job_result =
  res_summary :: jsval
  res_stdout :: stream
  res_stderr :: stream

text \<open>The option objects handed to the two job capabilities.\<close>

record scrape_options =
  o_startUrl :: string
  o_sitemapUrl :: "string option"
  o_resourceId :: "string option"
  o_userId :: "string option"
  o_vectorStorePath :: "string option"
  o_collectionName :: "string option"
  o_embeddingModelName :: "string option"
  o_domain :: "string option"
  o_maxDepth :: "int option"
  o_maxLinksPerPage :: "int option"
  o_respectRobots :: "bool option"
  o_aggressiveDiscovery :: "bool option"
  o_jobId :: string
  o_logLevel :: string

record updater_options = scrape_options +
  o_mongoUri :: "string option"

text \<open>The request \<open>axios.post(url, null, {params, headers, timeout})\<close>.\<close>

record bot_request =
  bot_url :: string
  bot_params :: "(string \<times> jsval) list"
  bot_headers :: "(string \<times> string) list"
  bot_timeout :: nat

text \<open>
  What the handlers are given from outside: the environment variables, the random part
  of a job id, \<open>Number.parseInt(v, 10)\<close> (\<open>None\<close> for \<open>NaN\<close>), and the
  collaborators.  \<open>getUserTenantContext\<close>, \<open>runTenantScrape\<close> and
  \<open>runTenantUpdater\<close> either throw or resolve.  \<open>axios_post\<close> throws on a timeout,
  on a network error and on a status outside 2xx, and otherwise resolves with
  \<open>response.data\<close>.
\<close>

record job_env =
  FASTAPI_BOT_URL :: "string option"
  FASTAPI_SHARED_SECRET :: "string option"
  SCRAPER_LOG_LEVEL :: "string option"
  UPDATER_LOG_LEVEL :: "string option"
  randomUUID :: string
  parseInt10 :: "jsval \<Rightarrow> int option"
  getUserTenantContext :: "string \<Rightarrow> js_error + tenant_context"
  runTenantScrape :: "scrape_options \<Rightarrow> js_error + job_result"
  runTenantUpdater :: "updater_options \<Rightarrow> js_error + job_result"
  axios_post :: "bot_request \<Rightarrow> js_error + jsval"

text \<open>The calls a handler makes to the outside, in the order it makes them.\<close>

datatype job_event =
    ScrapeDispatched scrape_options
  | UpdaterDispatched updater_options
  | BotNotified bot_request

fun is_dispatch :: "job_event \<Rightarrow> bool" where
  "is_dispatch (ScrapeDispatched _) = True"
| "is_dispatch (UpdaterDispatched _) = True"
| "is_dispatch (BotNotified _) = False"

subsection \<open>The signaler, the guard and the two handlers\<close>

definition buildJobId :: "job_env \<Rightarrow> string \<Rightarrow> string option \<Rightarrow> string" where
  "buildJobId env prefix resourceId =
     prefix @ ''_'' @ or_default resourceId ''tenant'' @ ''_'' @ randomUUID env"

definition refreshUrl :: "job_env \<Rightarrow> tenant_context \<Rightarrow> string" where
  "refreshUrl env tenantContext =
     or_default (or_str (ctx_botEndpoint tenantContext) (FASTAPI_BOT_URL env))
       ''http://localhost:8000''
     @ ''/mark-data-updated''"

definition markDataUpdated :: "job_env \<Rightarrow> tenant_context \<Rightarrow> bot_request" where
  "markDataUpdated env tenantContext =
     \<lparr> bot_url = refreshUrl env tenantContext,
       bot_params =
         [(''resource_id'', opt_str (ctx_resourceId tenantContext)),
          (''vector_store_path'', opt_str (ctx_vectorStorePath tenantContext)),
          (''database_uri'', opt_str (ctx_databaseUri tenantContext))],
       bot_headers =
         (case FASTAPI_SHARED_SECRET env of
            None \<Rightarrow> []
          | Some sharedSecret \<Rightarrow>
              if sharedSecret = [] then [] else [(''X-Service-Secret'', sharedSecret)]),
       bot_timeout = 5000 \<rparr>"

text \<open>
  \<open>refreshBotCache\<close>: the whole body is inside \<open>try\<close>, and \<open>catch\<close> turns
  whatever was thrown into a returned object.
\<close>

definition refreshBotCache :: "job_env \<Rightarrow> tenant_context \<Rightarrow> jsobj \<times> job_event list" where
  "refreshBotCache env tenantContext =
     (let request = markDataUpdated env tenantContext
      in (case axios_post env request of
            Inr data \<Rightarrow>
              if truthy data \<and> get_prop data ''status'' = JStr ''success''
              then [(''success'', JBool True), (''message'', get_prop data ''message'')]
              else [(''success'', JBool False),
                    (''error'', JStr ''Unexpected response from bot service'')]
          | Inl err \<Rightarrow>
              [(''success'', JBool False), (''error'', JStr (err_message err))],
          [BotNotified request]))"

definition ensureTenantResources :: "tenant_context \<Rightarrow> js_error + unit" where
  "ensureTenantResources tenantContext =
     (if falsy_str (ctx_vectorStorePath tenantContext) \<or> falsy_str (ctx_resourceId tenantContext)
      then Inl ((mk_error
                  ''Tenant resources are incomplete. Re-provision before running scrape.'')
                 \<lparr> err_statusCode := Some 503 \<rparr>)
      else Inr ())"

text \<open>\<open>typeof v === 'string' ? v.trim() : undefined\<close>, as both handlers read their text fields.\<close>

definition trimmedString :: "jsval \<Rightarrow> string option" where
  "trimmedString v = (case v of JStr s \<Rightarrow> Some (js_trim s) | _ \<Rightarrow> None)"

text \<open>\<open>req.tenantUserId || req.user.userId\<close>\<close>

definition effectiveUserId :: "job_request \<Rightarrow> string" where
  "effectiveUserId req = or_default (req_tenantUserId req) (req_userId req)"

text \<open>
  The test both handlers make first inside \<open>try\<close>:
  \<open>userRole === 'user' && req.tenantUserId && req.tenantUserId !== req.user.userId\<close>.
\<close>

definition accessDenied :: "job_request \<Rightarrow> bool" where
  "accessDenied req =
     (req_role req = ''user'' \<and> \<not> falsy_str (req_tenantUserId req)
      \<and> req_tenantUserId req \<noteq> Some (req_userId req))"

text \<open>The response of the handlers' \<open>catch\<close> block.\<close>

definition jobFailed :: "js_error \<Rightarrow> http_response" where
  "jobFailed err =
     \<lparr> status = (case err_statusCode err of
                   None \<Rightarrow> 500
                 | Some c \<Rightarrow> if c = 0 then 500 else c),
       body = [(''success'', JBool False),
               (''error'', JStr (err_message err)),
               (''code'', err_code err),
               (''summary'', if truthy (err_summary err) then err_summary err else JNull)] \<rparr>"

definition jobSucceeded ::
  "string \<Rightarrow> tenant_context \<Rightarrow> job_result \<Rightarrow> jsobj \<Rightarrow> http_response" where
  "jobSucceeded jobId tenantContext result cacheRefresh =
     \<lparr> status = 200,
       body = [(''success'', JBool True),
               (''jobId'', JStr jobId),
               (''resourceId'', opt_str (ctx_resourceId tenantContext)),
               (''summary'', res_summary result),
               (''stdout'', stream_val (truncateLog (res_stdout result))),
               (''stderr'', stream_val (truncateLog (res_stderr result))),
               (''cacheRefreshed'', obj_get cacheRefresh ''success''),
               (''documentCount'', obj_get cacheRefresh ''documentCount'')] \<rparr>"

definition scrapeOptions :: "job_env \<Rightarrow> job_request \<Rightarrow> tenant_context \<Rightarrow> scrape_options" where
  "scrapeOptions env req tenantContext =
     \<lparr> o_startUrl = (case b_startUrl (req_body req) of JStr s \<Rightarrow> js_trim s | _ \<Rightarrow> []),
       o_sitemapUrl = trimmedString (b_sitemapUrl (req_body req)),
       o_resourceId = ctx_resourceId tenantContext,
       o_userId = ctx_userId tenantContext,
       o_vectorStorePath = ctx_vectorStorePath tenantContext,
       o_collectionName = trimmedString (b_collectionName (req_body req)),
       o_embeddingModelName = trimmedString (b_embeddingModelName (req_body req)),
       o_domain = trimmedString (b_domain (req_body req)),
       o_maxDepth = parseIntegerOrUndefined (parseInt10 env) (b_maxDepth (req_body req)),
       o_maxLinksPerPage =
         parseIntegerOrUndefined (parseInt10 env) (b_maxLinksPerPage (req_body req)),
       o_respectRobots = toBooleanOrUndefined (b_respectRobots (req_body req)),
       o_aggressiveDiscovery = toBooleanOrUndefined (b_aggressiveDiscovery (req_body req)),
       o_jobId = buildJobId env ''scrape'' (ctx_resourceId tenantContext),
       o_logLevel = or_default (SCRAPER_LOG_LEVEL env) ''INFO'' \<rparr>"

definition startScrape :: "job_env \<Rightarrow> job_request \<Rightarrow> http_response \<times> job_event list" where
  "startScrape env req =
     (if accessDenied req
      then (\<lparr> status = 403,
              body = [(''success'', JBool False),
                      (''error'', JStr ''Access denied: You can only scrape your own data'')] \<rparr>,
            [])
      else
        case getUserTenantContext env (effectiveUserId req) of
          Inl err \<Rightarrow> (jobFailed err, [])
        | Inr tenantContext \<Rightarrow>
            (case ensureTenantResources tenantContext of
               Inl err \<Rightarrow> (jobFailed err, [])
             | Inr _ \<Rightarrow>
                 (let options = scrapeOptions env req tenantContext
                  in case runTenantScrape env options of
                       Inl err \<Rightarrow> (jobFailed err, [ScrapeDispatched options])
                     | Inr result \<Rightarrow>
                         (let (cacheRefresh, notified) = refreshBotCache env tenantContext
                          in (jobSucceeded (o_jobId options) tenantContext result cacheRefresh,
                              ScrapeDispatched options # notified)))))"

text \<open>\<open>mongoUriOverride || tenantContext.databaseUri\<close>\<close>

definition effectiveMongoUri :: "job_request \<Rightarrow> tenant_context \<Rightarrow> string option" where
  "effectiveMongoUri req tenantContext =
     or_str (trimmedString (b_mongoUri (req_body req))) (ctx_databaseUri tenantContext)"

definition updaterOptions :: "job_env \<Rightarrow> job_request \<Rightarrow> tenant_context \<Rightarrow> updater_options" where
  "updaterOptions env req tenantContext =
     \<lparr> o_startUrl = (case b_startUrl (req_body req) of JStr s \<Rightarrow> js_trim s | _ \<Rightarrow> []),
       o_sitemapUrl = trimmedString (b_sitemapUrl (req_body req)),
       o_resourceId = ctx_resourceId tenantContext,
       o_userId = ctx_userId tenantContext,
       o_vectorStorePath = ctx_vectorStorePath tenantContext,
       o_collectionName = trimmedString (b_collectionName (req_body req)),
       o_embeddingModelName = trimmedString (b_embeddingModelName (req_body req)),
       o_domain = trimmedString (b_domain (req_body req)),
       o_maxDepth = parseIntegerOrUndefined (parseInt10 env) (b_maxDepth (req_body req)),
       o_maxLinksPerPage =
         parseIntegerOrUndefined (parseInt10 env) (b_maxLinksPerPage (req_body req)),
       o_respectRobots = toBooleanOrUndefined (b_respectRobots (req_body req)),
       o_aggressiveDiscovery = toBooleanOrUndefined (b_aggressiveDiscovery (req_body req)),
       o_jobId = buildJobId env ''update'' (ctx_resourceId tenantContext),
       o_logLevel = or_default (UPDATER_LOG_LEVEL env) ''INFO'',
       o_mongoUri = effectiveMongoUri req tenantContext \<rparr>"

definition runUpdater :: "job_env \<Rightarrow> job_request \<Rightarrow> http_response \<times> job_event list" where
  "runUpdater env req =
     (if accessDenied req
      then (\<lparr> status = 403,
              body = [(''success'', JBool False),
                      (''error'', JStr ''Access denied: You can only update your own data'')] \<rparr>,
            [])
      else
        case getUserTenantContext env (effectiveUserId req) of
          Inl err \<Rightarrow> (jobFailed err, [])
        | Inr tenantContext \<Rightarrow>
            (case ensureTenantResources tenantContext of
               Inl err \<Rightarrow> (jobFailed err, [])
             | Inr _ \<Rightarrow>
                 (let options = updaterOptions env req tenantContext
                  in case runTenantUpdater env options of
                       Inl err \<Rightarrow> (jobFailed err, [UpdaterDispatched options])
                     | Inr result \<Rightarrow>
                         (let (cacheRefresh, notified) = refreshBotCache env tenantContext
                          in (jobSucceeded (o_jobId options) tenantContext result cacheRefresh,
                              UpdaterDispatched options # notified)))))"

section \<open>The identity store\<close>

text \<open>
  The \<open>users\<close> collection is a list of documents, each a JavaScript object.  An
  ObjectId (\<open>_id\<close>, \<open>adminId\<close>) is held in a document as the string that
  \<open>toString()\<close> gives.  The id strings of a request (\<open>req.params.id\<close>,
  \<open>req.user.userId\<close>) are arbitrary strings: the controllers compare them as strings,
  and the store casts them.
\<close>

fun obj_set :: "jsobj \<Rightarrow> string \<Rightarrow> jsval \<Rightarrow> jsobj" where
  "obj_set [] k v = [(k, v)]"
| "obj_set ((k', v') # rest) k v =
     (if k' = k then (k, v) # rest else (k', v') # obj_set rest k v)"

definition obj_del :: "jsobj \<Rightarrow> string \<Rightarrow> jsobj" where
  "obj_del obj k = filter (\<lambda>kv. fst kv \<noteq> k) obj"

text \<open>The paths of \<open>UserSchema\<close>, and those it declares \<open>immutable: true\<close>.\<close>

definition schemaPaths :: "string list" where
  "schemaPaths =
     [''name'', ''email'', ''username'', ''password'', ''adminId'', ''resourceId'',
      ''databaseUri'', ''botEndpoint'', ''schedulerEndpoint'', ''scraperEndpoint'',
      ''vectorStorePath'', ''role'', ''isActive'']"

definition immutablePaths :: "string list" where
  "immutablePaths = [''resourceId'']"

text \<open>
  \<open>{ $set: updates }\<close> on a stored document: Mongoose drops the keys that are not
  schema paths (strict mode) and the immutable paths, and sets the others.
\<close>

definition applySet :: "jsobj \<Rightarrow> jsobj \<Rightarrow> jsobj" where
  "applySet doc updates =
     fold (\<lambda>kv d. if fst kv \<in> set schemaPaths \<and> fst kv \<notin> set immutablePaths
                     then obj_set d (fst kv) (snd kv) else d)
          updates doc"


text \<open>
  A condition of a query on one path: equal or not equal to a value, or, on a path of
  type ObjectId, equal or not equal to the id that a string of the request denotes.
\<close>

datatype cond = Eq jsval | Ne jsval | EqId string | NeId string

type_synonym query = "(string \<times> cond) list"

fun replaceFirst :: "('a \<Rightarrow> bool) \<Rightarrow> 'a \<Rightarrow> 'a list \<Rightarrow> 'a list" where
  "replaceFirst P y [] = []"
| "replaceFirst P y (x # xs) = (if P x then y # xs else x # replaceFirst P y xs)"

datatype store_call =
    FindById string
  | FindOne query
  | FindByIdAndUpdate string jsobj
  | DeleteOne jsobj
  | Save jsobj

text \<open>
  The collaborators of the user and authentication controllers.  \<open>castObjectId\<close> is
  Mongoose's cast of an id string of a request to an ObjectId: it fails (\<open>None\<close>) on a
  string that is no id, and otherwise gives the id in the string form in which the
  documents hold it; it reads hexadecimal digits in either case, so differently spelled
  strings can denote one id.  \<open>store_fault\<close> says whether a call to the store throws
  in the current collection (a failed validator, a violated unique index, a lost
  connection); \<open>bcrypt_hash\<close>, \<open>provisionResourcesForUser\<close> (given \<open>userId\<close> and
  \<open>username\<close>) and \<open>jwt_sign\<close> either throw or return; \<open>newObjectId\<close> is the
  \<open>_id\<close> that \<open>new User\<close> generates.
\<close>

record user_env =
  castObjectId :: "string \<Rightarrow> string option"
  store_fault :: "jsobj list \<Rightarrow> store_call \<Rightarrow> js_error option"
  bcrypt_hash :: "jsval \<Rightarrow> js_error + string"
  provisionResourcesForUser :: "string \<Rightarrow> string \<Rightarrow> js_error + jsobj"
  jwt_sign :: "jsobj \<Rightarrow> js_error + string"
  newObjectId :: string

definition castError :: js_error where
  "castError = (mk_error ''Cast to ObjectId failed'') \<lparr> err_name := ''CastError'' \<rparr>"

text \<open>The document whose \<open>_id\<close> is the id \<open>c\<close>, given in its stored string form.\<close>

definition hasId :: "string \<Rightarrow> jsobj \<Rightarrow> bool" where
  "hasId c doc = (obj_get doc ''_id'' = JStr c)"

fun holds :: "user_env \<Rightarrow> jsobj \<Rightarrow> string \<times> cond \<Rightarrow> bool" where
  "holds env doc (k, Eq v) = (obj_get doc k = v)"
| "holds env doc (k, Ne v) = (obj_get doc k \<noteq> v)"
| "holds env doc (k, EqId s) =
     (case castObjectId env s of None \<Rightarrow> False | Some c \<Rightarrow> obj_get doc k = JStr c)"
| "holds env doc (k, NeId s) =
     (case castObjectId env s of None \<Rightarrow> False | Some c \<Rightarrow> obj_get doc k \<noteq> JStr c)"

definition matches :: "user_env \<Rightarrow> query \<Rightarrow> jsobj \<Rightarrow> bool" where
  "matches env q doc = list_all (holds env doc) q"

text \<open>A query is cast before it is sent: an id string that does not cast makes it throw.\<close>

fun castable :: "user_env \<Rightarrow> string \<times> cond \<Rightarrow> bool" where
  "castable env (k, EqId s) = (castObjectId env s \<noteq> None)"
| "castable env (k, NeId s) = (castObjectId env s \<noteq> None)"
| "castable env (k, _) = True"

definition findById :: "user_env \<Rightarrow> jsobj list \<Rightarrow> string \<Rightarrow> js_error + jsobj option" where
  "findById env us i =
     (case store_fault env us (FindById i) of
        Some err \<Rightarrow> Inl err
      | None \<Rightarrow>
          (case castObjectId env i of
             None \<Rightarrow> Inl castError
           | Some c \<Rightarrow> Inr (find (hasId c) us)))"

definition findOne :: "user_env \<Rightarrow> jsobj list \<Rightarrow> query \<Rightarrow> js_error + jsobj option" where
  "findOne env us q =
     (case store_fault env us (FindOne q) of
        Some err \<Rightarrow> Inl err
      | None \<Rightarrow>
          if list_all (castable env) q then Inr (find (matches env q) us) else Inl castError)"

text \<open>
  \<open>findByIdAndUpdate(id, { $set: updates }, { new: true, runValidators: true })\<close>:
  the updated document and the new collection, or \<open>null\<close> and the collection as it was.
\<close>

definition findByIdAndUpdate ::
  "user_env \<Rightarrow> jsobj list \<Rightarrow> string \<Rightarrow> jsobj \<Rightarrow> js_error + (jsobj option \<times> jsobj list)" where
  "findByIdAndUpdate env us i updates =
     (case store_fault env us (FindByIdAndUpdate i updates) of
        Some err \<Rightarrow> Inl err
      | None \<Rightarrow>
          (case castObjectId env i of
             None \<Rightarrow> Inl castError
           | Some c \<Rightarrow>
               (case find (hasId c) us of
                  None \<Rightarrow> Inr (None, us)
                | Some doc \<Rightarrow>
                    Inr (Some (applySet doc updates),
                         replaceFirst (hasId c) (applySet doc updates) us))))"



section \<open>The tenant context cache\<close>

type_synonym cache = "string \<Rightarrow> tenant_context option"

text \<open>
  Modelled from the spec: \<open>invalidateUserTenantContext\<close> of
  \<open>services/userContextService\<close>, which is not among the sources.  The spec's
  \<open>invalidate(identity)\<close> removes the cached entry for the identity.
\<close>

definition invalidateUserTenantContext :: "cache \<Rightarrow> string \<Rightarrow> cache" where
  "invalidateUserTenantContext c i = c(i := None)"

text \<open>
  Modelled from the spec: \<open>getUserTenantContext\<close> of the same service, the spec's
  \<open>get(identity, forceRefresh)\<close>.  An entry that exists is returned unchanged unless
  a refresh is forced; otherwise the tenant record is read (\<open>fetch\<close>, which may
  fail), \<open>ResourceIncomplete\<close> is raised if its resource id or index path is absent,
  and the fresh context is stored and returned.
\<close>

definition str_field :: "jsobj \<Rightarrow> string \<Rightarrow> string option" where
  "str_field doc k = (case obj_get doc k of JStr s \<Rightarrow> Some s | _ \<Rightarrow> None)"

definition contextOf :: "string \<Rightarrow> jsobj \<Rightarrow> tenant_context" where
  "contextOf i doc =
     \<lparr> ctx_userId = Some i,
       ctx_resourceId = str_field doc ''resourceId'',
       ctx_databaseUri = str_field doc ''databaseUri'',
       ctx_botEndpoint = str_field doc ''botEndpoint'',
       ctx_vectorStorePath = str_field doc ''vectorStorePath'' \<rparr>"


section \<open>The user controller\<close>

record world =
  users :: "jsobj list"
  contexts :: cache

datatype user_event =
    ProvisionCalled string string
  | StoreSaved jsobj
  | StoreUpdated string jsobj
  | StoreDeleted string
  | ContextInvalidated string

text \<open>
  A handler either sends a response or lets an exception escape (thrown outside
  \<open>try\<close>, or inside a \<open>catch\<close> block).
\<close>

datatype outcome = Responded http_response | Unhandled js_error

text \<open>
  The request after the authentication middleware: \<open>req.user.userId\<close>,
  \<open>req.user.role\<close>, \<open>req.params.id\<close> and \<open>req.body\<close>.
\<close>

record user_request =
  ur_userId :: string
  ur_role :: string
  ur_id :: string
  ur_body :: jsobj

definition typeError :: js_error where
  "typeError = (mk_error ''TypeError'') \<lparr> err_name := ''TypeError'' \<rparr>"

definition respond :: "nat \<Rightarrow> jsobj \<Rightarrow> outcome" where
  "respond code obj = Responded \<lparr> status = code, body = obj \<rparr>"

text \<open>
  \<open>String.prototype.toUpperCase\<close> on the first character of a key name: a to z, and
  the Latin-1 small letters from U+00E0 to U+00FE except the division sign U+00F7, move
  down by 32.  The three letters of this range whose capital lies outside it (U+00B5,
  U+00DF, U+00FF) do not occur in the key names of the schema and are left as they are.
\<close>

definition upper_char :: "char \<Rightarrow> char" where
  "upper_char c =
     (let n = (of_char c :: nat)
      in if (97 \<le> n \<and> n \<le> 122) \<or> (224 \<le> n \<and> n \<le> 254 \<and> n \<noteq> 247)
         then char_of (n - 32) else c)"

fun capitalize :: "string \<Rightarrow> string" where
  "capitalize [] = []"
| "capitalize (c # cs) = upper_char c # cs"

fun join_comma :: "string list \<Rightarrow> string" where
  "join_comma [] = []"
| "join_comma [m] = m"
| "join_comma (m # ms) = m @ '', '' @ join_comma ms"

text \<open>
  The \<open>catch\<close> blocks of the handlers.  \<open>updateUser\<close> has no duplicate-key branch
  (\<open>dup\<close> is false there).  \<open>Object.values(err.errors)\<close> and
  \<open>Object.keys(err.keyPattern)[0].charAt(0)\<close> throw when the property is missing.
\<close>

definition catchWith :: "bool \<Rightarrow> string \<Rightarrow> js_error \<Rightarrow> outcome" where
  "catchWith dup generic err =
     (if err_name err = ''ValidationError'' then
        (case err_errors err of
           None \<Rightarrow> Unhandled typeError
         | Some messages \<Rightarrow> respond 400 [(''error'', JStr (join_comma messages))])
      else if dup \<and> err_code err = JNum 11000 then
        (case err_keyPattern err of
           None \<Rightarrow> Unhandled typeError
         | Some [] \<Rightarrow> Unhandled typeError
         | Some (field # _) \<Rightarrow>
             respond 400 [(''error'', JStr (capitalize field @ '' already in use'')),
                          (''field'', JStr field)])
      else respond 500 [(''error'', JStr generic)])"

definition toSafeUser :: "jsobj \<Rightarrow> bool \<Rightarrow> jsobj" where
  "toSafeUser userDoc includeVectorStore =
     (let safeUser = obj_del userDoc ''password'';
          safeUser = (if includeVectorStore then safeUser else obj_del safeUser ''vectorStorePath'')
      in obj_set safeUser ''id'' (obj_get safeUser ''_id''))"

fun normalizeBoolean :: "jsval \<Rightarrow> jsval \<Rightarrow> bool" where
  "normalizeBoolean JUndefined defaultValue =
     (if defaultValue = JUndefined then True else truthy defaultValue)"
| "normalizeBoolean (JBool b) defaultValue = b"
| "normalizeBoolean (JStr s) defaultValue =
     (let normalized = toLowerCase (js_trim s)
      in if normalized \<in> set [''true'', ''1'', ''yes'', ''on''] then True
         else if normalized \<in> set [''false'', ''0'', ''no'', ''off''] then False
         else if defaultValue = JUndefined then True else truthy defaultValue)"
| "normalizeBoolean (JNum n) defaultValue = (n \<noteq> 0)"
| "normalizeBoolean _ defaultValue =
     (if defaultValue = JUndefined then True else truthy defaultValue)"

text \<open>
  \<open>if (v) updates.key = f(v)\<close>, where \<open>f\<close> calls string methods on \<open>v\<close>: when
  \<open>v\<close> is truthy and not a string it has no such method, and the call throws.
\<close>

definition setIfTruthy ::
  "string \<Rightarrow> jsval \<Rightarrow> (string \<Rightarrow> string) \<Rightarrow> jsobj \<Rightarrow> js_error + jsobj" where
  "setIfTruthy key v f updates =
     (if \<not> truthy v then Inr updates
      else case v of
             JStr s \<Rightarrow> Inr (obj_set updates key (JStr (f s)))
           | _ \<Rightarrow> Inl typeError)"


definition lowerTrim :: "string \<Rightarrow> string" where
  "lowerTrim s = js_trim (toLowerCase s)"

subsection \<open>The fixed responses\<close>

definition userNotFound :: outcome where
  "userNotFound = respond 404 [(''error'', JStr ''User not found'')]"

definition usernameTaken :: outcome where
  "usernameTaken =
     respond 400
       [(''error'', JStr ''Username already taken. Please choose a different username.''),
        (''field'', JStr ''username'')]"

definition emailInUse :: "string \<Rightarrow> outcome" where
  "emailInUse message = respond 400 [(''error'', JStr message), (''field'', JStr ''email'')]"

definition emailInUseByAnother :: outcome where
  "emailInUseByAnother = emailInUse ''Email already in use by another user''"

definition emailInUseUnderAdmin :: outcome where
  "emailInUseUnderAdmin = emailInUse ''Email already in use by another user under this admin''"



definition passwordError :: outcome where
  "passwordError = respond 500 [(''error'', JStr ''Error updating password'')]"

definition denyUpdateOthers :: outcome where
  "denyUpdateOthers =
     respond 403 [(''error'', JStr ''Access denied: You can only update users you created'')]"

definition denyUpdateNotOwn :: outcome where
  "denyUpdateNotOwn =
     respond 403 [(''error'', JStr ''Access denied: You can only update your own profile'')]"

definition denyDeleteOthers :: outcome where
  "denyDeleteOthers =
     respond 403 [(''error'', JStr ''Access denied: You can only delete users you created'')]"

definition denyDeleteByUser :: outcome where
  "denyDeleteByUser =
     respond 403 [(''error'', JStr ''Access denied: Users cannot delete accounts'')]"

definition denySelfDelete :: outcome where
  "denySelfDelete =
     respond 400 [(''error'', JStr ''You cannot delete your own account while signed in'')]"

definition deleteFailed :: outcome where
  "deleteFailed = respond 500 [(''error'', JStr ''Failed to delete user'')]"



definition profileUpdated :: "jsobj \<Rightarrow> outcome" where
  "profileUpdated responseUser =
     respond 200 [(''message'', JStr ''Profile updated successfully''),
                  (''user'', JObj responseUser)]"

definition userUpdated :: "jsobj \<Rightarrow> outcome" where
  "userUpdated updatedUser =
     respond 200 [(''message'', JStr ''User updated successfully''),
                  (''user'', JObj (toSafeUser updatedUser True))]"

definition userDeleted :: outcome where
  "userDeleted = respond 200 [(''message'', JStr ''User deleted successfully'')]"



text \<open>The generic messages of the \<open>catch\<close> blocks.\<close>

definition updateFailed :: "js_error \<Rightarrow> outcome" where
  "updateFailed = catchWith True ''Update failed''"

definition updateUserFailed :: "js_error \<Rightarrow> outcome" where
  "updateUserFailed = catchWith False ''Failed to update user''"



subsection \<open>updateMe\<close>

definition emailQueryMe :: "string \<Rightarrow> jsobj \<Rightarrow> jsval \<Rightarrow> query" where
  "emailQueryMe userId currentUser email =
     [(''email'', Eq email), (''_id'', NeId userId)]
     @ (if obj_get currentUser ''role'' = JStr ''user'' \<and> truthy (obj_get currentUser ''adminId'')
        then [(''adminId'', Eq (obj_get currentUser ''adminId''))]
        else if obj_get currentUser ''role'' = JStr ''admin''
        then [(''role'', Eq (JStr ''admin''))]
        else [])"

text \<open>The statements of \<open>updateMe\<close> inside its second \<open>try\<close>, given the \<open>updates\<close>.\<close>

definition updateMeTry ::
  "user_env \<Rightarrow> world \<Rightarrow> user_request \<Rightarrow> jsobj \<Rightarrow> outcome \<times> world \<times> user_event list" where
  "updateMeTry env w req updates =
     (let userId = ur_userId req;
          email = obj_get (ur_body req) ''email'';
          username = obj_get (ur_body req) ''username''
      in case findById env (users w) userId of
           Inl err \<Rightarrow> (updateFailed err, w, [])
         | Inr None \<Rightarrow> (userNotFound, w, [])
         | Inr (Some currentUser) \<Rightarrow>
             (case (if truthy email
                    then findOne env (users w)
                           (emailQueryMe userId currentUser (obj_get updates ''email''))
                    else Inr None) of
                Inl err \<Rightarrow> (updateFailed err, w, [])
              | Inr (Some existingEmail) \<Rightarrow> (emailInUseByAnother, w, [])
              | Inr None \<Rightarrow>
                  (case (if truthy username
                         then findOne env (users w)
                                [(''username'', Eq (obj_get updates ''username'')),
                                 (''_id'', NeId userId)]
                         else Inr None) of
                     Inl err \<Rightarrow> (updateFailed err, w, [])
                   | Inr (Some existingUsername) \<Rightarrow> (usernameTaken, w, [])
                   | Inr None \<Rightarrow>
                       (case findByIdAndUpdate env (users w) userId updates of
                          Inl err \<Rightarrow> (updateFailed err, w, [])
                        | Inr (None, us) \<Rightarrow> (userNotFound, w, [])
                        | Inr (Some updated, us) \<Rightarrow>
                            (let user = obj_del updated ''password'';
                                 responseUser =
                                   (if obj_get user ''role'' \<noteq> JStr ''admin''
                                    then obj_del user ''vectorStorePath'' else user)
                             in (profileUpdated responseUser,
                                 w \<lparr> users := us,
                                     contexts := invalidateUserTenantContext (contexts w) userId \<rparr>,
                                 [StoreUpdated userId updates, ContextInvalidated userId]))))))"

definition updateMe ::
  "user_env \<Rightarrow> world \<Rightarrow> user_request \<Rightarrow> outcome \<times> world \<times> user_event list" where
  "updateMe env w req =
     (let name = obj_get (ur_body req) ''name'';
          email = obj_get (ur_body req) ''email'';
          username = obj_get (ur_body req) ''username'';
          password = obj_get (ur_body req) ''password''
      in case setIfTruthy ''name'' name js_trim [] of
           Inl err \<Rightarrow> (Unhandled err, w, [])
         | Inr updates1 \<Rightarrow>
             (case setIfTruthy ''email'' email lowerTrim updates1 of
                Inl err \<Rightarrow> (Unhandled err, w, [])
              | Inr updates2 \<Rightarrow>
                  (case setIfTruthy ''username'' username js_trim updates2 of
                     Inl err \<Rightarrow> (Unhandled err, w, [])
                   | Inr updates3 \<Rightarrow>
                       if truthy password
                       then (case bcrypt_hash env password of
                               Inl err \<Rightarrow> (passwordError, w, [])
                             | Inr hashed \<Rightarrow>
                                 updateMeTry env w req
                                   (obj_set updates3 ''password'' (JStr hashed)))
                       else updateMeTry env w req updates3)))"

subsection \<open>updateUser\<close>

text \<open>The statements of \<open>updateUser\<close> inside \<open>try\<close>, given the \<open>updates\<close> built before it.\<close>

definition updateUserTry ::
  "user_env \<Rightarrow> world \<Rightarrow> user_request \<Rightarrow> jsobj \<Rightarrow> outcome \<times> world \<times> user_event list" where
  "updateUserTry env w req updates =
     (let id = ur_id req;
          currentUserId = ur_userId req;
          currentUserRole = ur_role req;
          password = obj_get (ur_body req) ''password''
      in case findById env (users w) id of
           Inl err \<Rightarrow> (updateUserFailed err, w, [])
         | Inr None \<Rightarrow> (userNotFound, w, [])
         | Inr (Some userToUpdate) \<Rightarrow>
             if currentUserRole = ''admin'' \<and> truthy (obj_get userToUpdate ''adminId'')
                \<and> obj_get userToUpdate ''adminId'' \<noteq> JStr currentUserId
             then (denyUpdateOthers, w, [])
             else if currentUserRole = ''user'' \<and> obj_get userToUpdate ''_id'' \<noteq> JStr currentUserId
             then (denyUpdateNotOwn, w, [])
             else
               (let adminIdForCheck =
                      (if currentUserRole = ''admin'' then EqId currentUserId
                       else Eq (obj_get userToUpdate ''adminId''))
                in case (if truthy (obj_get updates ''email'')
                         then findOne env (users w)
                                [(''email'', Eq (obj_get updates ''email'')),
                                 (''adminId'', adminIdForCheck),
                                 (''_id'', NeId id)]
                         else Inr None) of
                     Inl err \<Rightarrow> (updateUserFailed err, w, [])
                   | Inr (Some existingEmail) \<Rightarrow> (emailInUseUnderAdmin, w, [])
                   | Inr None \<Rightarrow>
                       (case (if truthy (obj_get updates ''username'')
                              then findOne env (users w)
                                     [(''username'', Eq (obj_get updates ''username'')),
                                      (''_id'', NeId id)]
                              else Inr None) of
                          Inl err \<Rightarrow> (updateUserFailed err, w, [])
                        | Inr (Some existingUsername) \<Rightarrow> (usernameTaken, w, [])
                        | Inr None \<Rightarrow>
                            (case (if truthy password
                                   then (case bcrypt_hash env password of
                                           Inl err \<Rightarrow> Inl err
                                         | Inr hashed \<Rightarrow>
                                             Inr (obj_set updates ''password'' (JStr hashed)))
                                   else Inr updates) of
                               Inl err \<Rightarrow> (updateUserFailed err, w, [])
                             | Inr updates' \<Rightarrow>
                                 (case findByIdAndUpdate env (users w) id updates' of
                                    Inl err \<Rightarrow> (updateUserFailed err, w, [])
                                  | Inr (None, us) \<Rightarrow> (userNotFound, w, [])
                                  | Inr (Some updatedUser, us) \<Rightarrow>
                                      (userUpdated updatedUser,
                                       w \<lparr> users := us,
                                           contexts :=
                                             invalidateUserTenantContext (contexts w) id \<rparr>,
                                       [StoreUpdated id updates', ContextInvalidated id]))))))"

definition updateUser ::
  "user_env \<Rightarrow> world \<Rightarrow> user_request \<Rightarrow> outcome \<times> world \<times> user_event list" where
  "updateUser env w req =
     (let name = obj_get (ur_body req) ''name'';
          email = obj_get (ur_body req) ''email'';
          username = obj_get (ur_body req) ''username'';
          isActive = obj_get (ur_body req) ''isActive''
      in case setIfTruthy ''name'' name js_trim [] of
           Inl err \<Rightarrow> (Unhandled err, w, [])
         | Inr updates1 \<Rightarrow>
             (case setIfTruthy ''email'' email lowerTrim updates1 of
                Inl err \<Rightarrow> (Unhandled err, w, [])
              | Inr updates2 \<Rightarrow>
                  (case setIfTruthy ''username'' username js_trim updates2 of
                     Inl err \<Rightarrow> (Unhandled err, w, [])
                   | Inr updates3 \<Rightarrow>
                       updateUserTry env w req
                         (if isActive \<noteq> JUndefined
                          then obj_set updates3 ''isActive''
                                 (JBool (normalizeBoolean isActive (JBool True)))
                          else updates3))))"

subsection \<open>deleteUser\<close>


subsection \<open>createUser and registerUser\<close>






section \<open>Example inputs\<close>

text \<open>
  The scenario of a tenant \<open>acme_7f3a\<close> whose scrape and update jobs succeed while
  the bot service refuses the connection.  The request carries a data-store override
  made of one space and a robots flag in a string form.
\<close>

definition acme_context :: tenant_context where
  "acme_context =
     \<lparr> ctx_userId = Some ''u1'', ctx_resourceId = Some ''acme_7f3a'',
       ctx_databaseUri = Some ''mongodb://db/acme_7f3a'', ctx_botEndpoint = Some ''http://bot'',
       ctx_vectorStorePath = Some ''/stores/acme_7f3a'' \<rparr>"

definition acme_body :: job_body where
  "acme_body =
     \<lparr> b_startUrl = JStr ''https://acme.example/docs'', b_sitemapUrl = JUndefined,
       b_embeddingModelName = JUndefined, b_collectionName = JUndefined,
       b_domain = JUndefined, b_mongoUri = JStr '' '',
       b_respectRobots = JStr '' Yes '', b_aggressiveDiscovery = JBool False,
       b_maxDepth = JNum 2, b_maxLinksPerPage = JUndefined \<rparr>"

definition acme_request :: job_request where
  "acme_request =
     \<lparr> req_body = acme_body, req_tenantUserId = None, req_userId = ''u1'',
       req_role = ''admin'' \<rparr>"

definition acme_result :: job_result where
  "acme_result =
     \<lparr> res_summary = JObj [(''pagesCrawled'', JNum 40)], res_stdout = StreamText ''done'',
       res_stderr = StreamUndefined \<rparr>"

text \<open>An environment in which both jobs succeed and the bot service refuses the connection.\<close>

definition acme_env :: "tenant_context \<Rightarrow> job_env" where
  "acme_env tenantContext =
     \<lparr> FASTAPI_BOT_URL = None, FASTAPI_SHARED_SECRET = Some ''s3cret'',
       SCRAPER_LOG_LEVEL = None, UPDATER_LOG_LEVEL = None,
       randomUUID = ''0000'',
       parseInt10 = (\<lambda>v. case v of JNum n \<Rightarrow> Some n | _ \<Rightarrow> None),
       getUserTenantContext = (\<lambda>userId. Inr tenantContext),
       runTenantScrape = (\<lambda>options. Inr acme_result),
       runTenantUpdater = (\<lambda>options. Inr acme_result),
       axios_post = (\<lambda>request. Inl (mk_error ''connect ECONNREFUSED'')) \<rparr>"


text \<open>A job whose captured standard output has 8200 characters.\<close>

definition noisy_result :: job_result where
  "noisy_result =
     \<lparr> res_summary = JNull, res_stdout = StreamText (replicate 8200 (CHR ''x'')),
       res_stderr = StreamText ''warn'' \<rparr>"

definition noisy_env :: job_env where
  "noisy_env =
     (acme_env acme_context)
       \<lparr> runTenantScrape := (\<lambda>options. Inr noisy_result),
         runTenantUpdater := (\<lambda>options. Inr noisy_result) \<rparr>"

text \<open>
  The cast of the example environment: a string of 24 hexadecimal digits denotes the id
  written with the same digits in lower case; no other string is an id.
\<close>

definition hexDigit :: "char \<Rightarrow> bool" where
  "hexDigit c =
     (let n = (of_char c :: nat)
      in (48 \<le> n \<and> n \<le> 57) \<or> (65 \<le> n \<and> n \<le> 70) \<or> (97 \<le> n \<and> n \<le> 102))"

definition hexObjectId :: "string \<Rightarrow> string option" where
  "hexObjectId s =
     (if length s = 24 \<and> list_all hexDigit s then Some (toLowerCase s) else None)"

text \<open>
  An administrator \<open>ada\<close> and her member \<open>bob\<close>, whose context is cached.  In the
  example environment the store never fails and provisioning always throws.  The
  member edits his own name; the administrator edits the member's email, deletes the
  member and tries to delete her own account; a visitor registers.  Both edits also
  carry a \<open>resourceId\<close>.
\<close>

definition ada_id :: string where
  "ada_id = ''64b0c1d2e3f4a5b6c7d8e9f0''"

definition bob_id :: string where
  "bob_id = ''64b0c1d2e3f4a5b6c7d8e9f1''"

definition carol_id :: string where
  "carol_id = ''64b0c1d2e3f4a5b6c7d8e9f2''"

definition ada :: jsobj where
  "ada =
     [(''_id'', JStr ada_id), (''name'', JStr ''Ada''), (''email'', JStr ''ada@acme.example''),
      (''username'', JStr ''ada''), (''password'', JStr ''hash:x''), (''role'', JStr ''admin''),
      (''isActive'', JBool True), (''resourceId'', JStr ''ada_1f2e3d''),
      (''databaseUri'', JStr ''mongodb://db/ada_1f2e3d''), (''botEndpoint'', JStr ''http://bot''),
      (''schedulerEndpoint'', JStr ''http://scheduler''),
      (''scraperEndpoint'', JStr ''http://scraper''),
      (''vectorStorePath'', JStr ''/stores/ada_1f2e3d'')]"

definition bob :: jsobj where
  "bob =
     [(''_id'', JStr bob_id), (''name'', JStr ''Bob''), (''email'', JStr ''bob@old.example''),
      (''username'', JStr ''bob''), (''password'', JStr ''hash:y''), (''role'', JStr ''user''),
      (''isActive'', JBool True), (''adminId'', JStr ada_id),
      (''resourceId'', JStr ''bob_9c8b7a''),
      (''databaseUri'', JStr ''mongodb://db/bob_9c8b7a''), (''botEndpoint'', JStr ''http://bot''),
      (''schedulerEndpoint'', JStr ''http://scheduler''),
      (''scraperEndpoint'', JStr ''http://scraper''),
      (''vectorStorePath'', JStr ''/stores/bob_9c8b7a'')]"

definition demo_world :: world where
  "demo_world =
     \<lparr> users = [ada, bob],
       contexts = (\<lambda>i. if i = bob_id then Some (contextOf bob_id bob) else None) \<rparr>"

definition demo_env :: user_env where
  "demo_env =
     \<lparr> castObjectId = hexObjectId,
       store_fault = (\<lambda>us call. None),
       bcrypt_hash = (\<lambda>v. case v of JStr s \<Rightarrow> Inr (''hash:'' @ s) | _ \<Rightarrow> Inl typeError),
       provisionResourcesForUser =
         (\<lambda>userId username. Inl (mk_error ''Unable to derive resource identifier'')),
       jwt_sign = (\<lambda>payload. Inr ''token''),
       newObjectId = carol_id \<rparr>"


definition edit_bob :: user_request where
  "edit_bob =
     \<lparr> ur_userId = ada_id, ur_role = ''admin'', ur_id = bob_id,
       ur_body = [(''email'', JStr ''bob@acme.example''), (''resourceId'', JStr ''stolen'')] \<rparr>"




text \<open>Reading a decimal numeral back, to state what \<open>show_nat\<close> renders.\<close>

definition read_nat :: "string \<Rightarrow> nat" where
  "read_nat s = foldl (\<lambda>a c. 10 * a + (of_char c - 48)) 0 s"

section \<open>Properties of the job controller\<close>

subsection \<open>Decimal rendering\<close>

lemma digit_char_value: "d < 10 \<Longrightarrow> (of_char (digit_char d) :: nat) = 48 + d"
  by (simp add: digit_char_def)

lemma read_nat_snoc: "read_nat (s @ [c]) = 10 * read_nat s + (of_char c - 48)"
  by (simp add: read_nat_def)

lemma read_show_nat: "read_nat (show_nat n) = n"
proof (induction n rule: show_nat.induct)
  case (1 n)
  show ?case
  proof (cases "n < 10")
    case True
    then show ?thesis
      by (subst show_nat.simps) (simp add: read_nat_def digit_char_value)
  next
    case False
    then have "read_nat (show_nat (n div 10)) = n div 10"
      using 1 by simp
    with False show ?thesis
      by (subst show_nat.simps) (simp add: read_nat_snoc digit_char_value)
  qed
qed

lemma digit_chars: "\<forall>d \<in> set [0..<10]. digit_char d \<in> set ''0123456789''"
  by code_simp

lemma digit_char_digit: "d < 10 \<Longrightarrow> digit_char d \<in> set ''0123456789''"
  using digit_chars by simp

lemma show_nat_digits: "set (show_nat n) \<subseteq> set ''0123456789''"
proof (induction n rule: show_nat.induct)
  case (1 n)
  show ?case
  proof (cases "n < 10")
    case True
    then show ?thesis
      using digit_char_digit [of n] by (subst show_nat.simps) simp
  next
    case False
    then have "set (show_nat (n div 10)) \<subseteq> set ''0123456789''"
      using 1 by simp
    moreover have "digit_char (n mod 10) \<in> set ''0123456789''"
      by (rule digit_char_digit) simp
    ultimately show ?thesis
      using False by (subst show_nat.simps) simp
  qed
qed

lemma show_nat_8: "show_nat 8 = ''8''"
  by code_simp

subsection \<open>Output truncation\<close>

text \<open>
  Claim C5 as stated fails: for a captured standard output of 8200 characters the
  \<open>stdout\<close> of the response of \<open>startScrape\<close> is not the first 8192 characters
  followed by the marker \<open>... [truncated 8 chars]\<close>, because a line break stands
  between them.
\<close>

theorem truncated_marker_counterexample:
  "res_stdout noisy_result = StreamText (replicate 8200 (CHR ''x''))
   \<and> obj_get (body (fst (startScrape noisy_env acme_request))) ''stdout''
       = JStr (replicate 8192 (CHR ''x'') @ [CHR 0x0A] @ ''... [truncated 8 chars]'')
   \<and> obj_get (body (fst (startScrape noisy_env acme_request))) ''stdout''
       \<noteq> JStr (replicate 8192 (CHR ''x'') @ ''... [truncated 8 chars]'')"
  by (simp add: startScrape_def accessDenied_def acme_request_def noisy_env_def acme_env_def
        ensureTenantResources_def acme_context_def falsy_str_def refreshBotCache_def
        jobSucceeded_def obj_get_def noisy_result_def maxLength_def show_nat_8 Let_def)

text \<open>
  Claim C5, amended.  Whenever \<open>startScrape\<close> or \<open>runUpdater\<close> runs its job and
  the job succeeds, the \<open>stdout\<close> and \<open>stderr\<close> of the response are the captured
  streams passed through \<open>truncateLog\<close>.  \<open>truncateLog\<close> returns a stream of at most
  8192 characters unchanged, and so an absent (\<open>undefined\<close> or \<open>null\<close>) or empty one;
  a longer stream becomes its first 8192 characters followed by a line break and the
  marker \<open>... [truncated N chars]\<close>, where \<open>N\<close> is the decimal numeral of the length
  minus 8192.
\<close>

theorem truncateLog_spec:
  "truncateLog StreamUndefined = StreamUndefined
   \<and> truncateLog StreamNull = StreamNull
   \<and> truncateLog (StreamText s) =
       (if length s \<le> 8192 then StreamText s
        else StreamText (take 8192 s @ [CHR 0x0A] @ ''... [truncated ''
                           @ show_nat (length s - 8192) @ '' chars]''))
   \<and> read_nat (show_nat (length s - 8192)) = length s - 8192
   \<and> set (show_nat (length s - 8192)) \<subseteq> set ''0123456789''
   \<and> (\<not> accessDenied req
        \<and> getUserTenantContext env (effectiveUserId req) = Inr tenantContext
        \<and> ensureTenantResources tenantContext = Inr ()
       \<longrightarrow>
         (\<forall>result. runTenantScrape env (scrapeOptions env req tenantContext) = Inr result \<longrightarrow>
            obj_get (body (fst (startScrape env req))) ''stdout''
              = stream_val (truncateLog (res_stdout result))
            \<and> obj_get (body (fst (startScrape env req))) ''stderr''
              = stream_val (truncateLog (res_stderr result)))
         \<and> (\<forall>result. runTenantUpdater env (updaterOptions env req tenantContext) = Inr result \<longrightarrow>
            obj_get (body (fst (runUpdater env req))) ''stdout''
              = stream_val (truncateLog (res_stdout result))
            \<and> obj_get (body (fst (runUpdater env req))) ''stderr''
              = stream_val (truncateLog (res_stderr result))))"
proof -
  have "truncateLog (StreamText s) =
       (if length s \<le> 8192 then StreamText s
        else StreamText (take 8192 s @ [CHR 0x0A] @ ''... [truncated ''
                           @ show_nat (length s - 8192) @ '' chars]''))"
    by (simp add: maxLength_def)
  moreover
  have "obj_get (body (jobSucceeded j c r cr)) ''stdout'' = stream_val (truncateLog (res_stdout r))
        \<and> obj_get (body (jobSucceeded j c r cr)) ''stderr''
          = stream_val (truncateLog (res_stderr r))" for j c r cr
    by (simp add: jobSucceeded_def obj_get_def)
  then have "\<not> accessDenied req
        \<and> getUserTenantContext env (effectiveUserId req) = Inr tenantContext
        \<and> ensureTenantResources tenantContext = Inr ()
       \<longrightarrow>
         (\<forall>result. runTenantScrape env (scrapeOptions env req tenantContext) = Inr result \<longrightarrow>
            obj_get (body (fst (startScrape env req))) ''stdout''
              = stream_val (truncateLog (res_stdout result))
            \<and> obj_get (body (fst (startScrape env req))) ''stderr''
              = stream_val (truncateLog (res_stderr result)))
         \<and> (\<forall>result. runTenantUpdater env (updaterOptions env req tenantContext) = Inr result \<longrightarrow>
            obj_get (body (fst (runUpdater env req))) ''stdout''
              = stream_val (truncateLog (res_stdout result))
            \<and> obj_get (body (fst (runUpdater env req))) ''stderr''
              = stream_val (truncateLog (res_stderr result)))"
    by (simp add: startScrape_def runUpdater_def Let_def split_beta)
  ultimately show ?thesis
    using read_show_nat [of "length s - 8192"] show_nat_digits [of "length s - 8192"]
    by simp
qed

theorem truncateLog_spec_witness:
  "obj_get (body (fst (startScrape noisy_env acme_request))) ''stdout''
     = JStr (replicate 8192 (CHR ''x'') @ [CHR 0x0A] @ ''... [truncated 8 chars]'')
   \<and> obj_get (body (fst (runUpdater noisy_env acme_request))) ''stderr'' = JStr ''warn''
   \<and> truncateLog (StreamText ''ok'') = StreamText ''ok''"
proof -
  have a: "\<not> accessDenied acme_request"
    by (simp add: accessDenied_def acme_request_def)
  have b: "getUserTenantContext noisy_env (effectiveUserId acme_request) = Inr acme_context"
    by (simp add: noisy_env_def acme_env_def)
  have c: "ensureTenantResources acme_context = Inr ()"
    by (simp add: ensureTenantResources_def acme_context_def falsy_str_def)
  have d: "runTenantScrape noisy_env (scrapeOptions noisy_env acme_request acme_context)
             = Inr noisy_result"
    "runTenantUpdater noisy_env (updaterOptions noisy_env acme_request acme_context)
             = Inr noisy_result"
    by (simp_all add: noisy_env_def)
  have e: "truncateLog (StreamText (replicate 8200 (CHR ''x'')))
             = StreamText (replicate 8192 (CHR ''x'') @ [CHR 0x0A] @ ''... [truncated 8 chars]'')"
    using truncateLog_spec [of "replicate 8200 (CHR ''x'')"] by (simp add: show_nat_8)
  have f: "truncateLog (StreamText ''warn'') = StreamText ''warn''"
    "truncateLog (StreamText ''ok'') = StreamText ''ok''"
    using truncateLog_spec [of "''warn''"] truncateLog_spec [of "''ok''"] by simp_all
  show ?thesis
    using truncateLog_spec [of _ acme_request noisy_env acme_context] a b c d e f
    by (simp add: noisy_result_def)
qed

subsection \<open>Flag parsing\<close>

text \<open>
  Claim C7.  The parsed flag is true exactly for the boolean true and for the strings
  that read \<open>true\<close>, \<open>1\<close>, \<open>yes\<close> or \<open>on\<close> after trimming and lowercasing; false
  exactly for the boolean false and for the strings that read \<open>false\<close>, \<open>0\<close>,
  \<open>no\<close> or \<open>off\<close>; and undefined for every other value.  Both handlers pass the
  parsed robots-respect and aggressive-discovery flags of the request body to the job.
\<close>

theorem toBooleanOrUndefined_spec:
  "(toBooleanOrUndefined v = Some True \<longleftrightarrow>
      v = JBool True \<or>
      (\<exists>s. v = JStr s \<and> toLowerCase (js_trim s) \<in> {''true'', ''1'', ''yes'', ''on''}))
   \<and> (toBooleanOrUndefined v = Some False \<longleftrightarrow>
      v = JBool False \<or>
      (\<exists>s. v = JStr s \<and> toLowerCase (js_trim s) \<in> {''false'', ''0'', ''no'', ''off''}))
   \<and> (toBooleanOrUndefined v = None \<longleftrightarrow>
      (\<forall>b. v \<noteq> JBool b) \<and>
      (\<forall>s. v = JStr s \<longrightarrow> toLowerCase (js_trim s) \<notin>
         {''true'', ''1'', ''yes'', ''on'', ''false'', ''0'', ''no'', ''off''}))
   \<and> o_respectRobots (scrapeOptions env req tenantContext)
       = toBooleanOrUndefined (b_respectRobots (req_body req))
   \<and> o_aggressiveDiscovery (scrapeOptions env req tenantContext)
       = toBooleanOrUndefined (b_aggressiveDiscovery (req_body req))
   \<and> o_respectRobots (updaterOptions env req tenantContext)
       = toBooleanOrUndefined (b_respectRobots (req_body req))
   \<and> o_aggressiveDiscovery (updaterOptions env req tenantContext)
       = toBooleanOrUndefined (b_aggressiveDiscovery (req_body req))"
proof -
  have "(toBooleanOrUndefined v = Some True \<longleftrightarrow>
      v = JBool True \<or>
      (\<exists>s. v = JStr s \<and> toLowerCase (js_trim s) \<in> {''true'', ''1'', ''yes'', ''on''}))
   \<and> (toBooleanOrUndefined v = Some False \<longleftrightarrow>
      v = JBool False \<or>
      (\<exists>s. v = JStr s \<and> toLowerCase (js_trim s) \<in> {''false'', ''0'', ''no'', ''off''}))
   \<and> (toBooleanOrUndefined v = None \<longleftrightarrow>
      (\<forall>b. v \<noteq> JBool b) \<and>
      (\<forall>s. v = JStr s \<longrightarrow> toLowerCase (js_trim s) \<notin>
         {''true'', ''1'', ''yes'', ''on'', ''false'', ''0'', ''no'', ''off''}))"
    by (cases v) (auto simp: Let_def)
  then show ?thesis
    by (simp add: scrapeOptions_def updaterOptions_def)
qed

theorem toBooleanOrUndefined_spec_witness:
  "toBooleanOrUndefined (JStr '' Yes '') = Some True
   \<and> toBooleanOrUndefined (JStr ''off'') = Some False
   \<and> toBooleanOrUndefined (JNum 1) = None
   \<and> o_respectRobots (scrapeOptions (acme_env acme_context) acme_request acme_context)
       = Some True"
  using toBooleanOrUndefined_spec [of "JStr '' Yes ''" "acme_env acme_context" acme_request acme_context]
    toBooleanOrUndefined_spec [of "JStr ''off''"]
    toBooleanOrUndefined_spec [of "JNum 1"]
  by (simp add: acme_request_def acme_body_def js_trim_def js_space_def toLowerCase_def
        lower_char_def char_of_def bit_Suc_0_iff bit_0)

subsection \<open>The stale-index signal\<close>

lemma refreshBotCache_failed:
  assumes "(\<exists>err. axios_post env (markDataUpdated env tenantContext) = Inl err)
           \<or> (\<exists>data. axios_post env (markDataUpdated env tenantContext) = Inr data
                 \<and> \<not> (truthy data \<and> get_prop data ''status'' = JStr ''success''))"
  shows "\<exists>msg. fst (refreshBotCache env tenantContext)
            = [(''success'', JBool False), (''error'', JStr msg)]"
  using assms
  by (auto simp: refreshBotCache_def Let_def split: sum.splits)

text \<open>
  Claim C1.  Take a request that passes the access check, whose tenant context is
  resolved and complete, and whose notification fails: \<open>axios.post\<close> throws (timeout,
  network error, status outside 2xx) or the reply's status is not \<open>success\<close>.  Then
  \<open>refreshBotCache\<close> returns the object \<open>{success: false, error}\<close>, and whenever the
  job itself succeeds the handler answers 200 with \<open>success: true\<close>,
  \<open>cacheRefreshed: false\<close> and the job's summary.
\<close>

theorem signal_failure_isolated:
  assumes "\<not> accessDenied req"
    and "getUserTenantContext env (effectiveUserId req) = Inr tenantContext"
    and "ensureTenantResources tenantContext = Inr ()"
    and "(\<exists>err. axios_post env (markDataUpdated env tenantContext) = Inl err)
         \<or> (\<exists>data. axios_post env (markDataUpdated env tenantContext) = Inr data
               \<and> \<not> (truthy data \<and> get_prop data ''status'' = JStr ''success''))"
  shows "(\<exists>msg. fst (refreshBotCache env tenantContext)
            = [(''success'', JBool False), (''error'', JStr msg)])
    \<and> (\<forall>result. runTenantScrape env (scrapeOptions env req tenantContext) = Inr result \<longrightarrow>
          status (fst (startScrape env req)) = 200
          \<and> obj_get (body (fst (startScrape env req))) ''success'' = JBool True
          \<and> obj_get (body (fst (startScrape env req))) ''cacheRefreshed'' = JBool False
          \<and> obj_get (body (fst (startScrape env req))) ''summary'' = res_summary result)
    \<and> (\<forall>result. runTenantUpdater env (updaterOptions env req tenantContext) = Inr result \<longrightarrow>
          status (fst (runUpdater env req)) = 200
          \<and> obj_get (body (fst (runUpdater env req))) ''success'' = JBool True
          \<and> obj_get (body (fst (runUpdater env req))) ''cacheRefreshed'' = JBool False
          \<and> obj_get (body (fst (runUpdater env req))) ''summary'' = res_summary result)"
proof -
  obtain msg where m: "fst (refreshBotCache env tenantContext)
            = [(''success'', JBool False), (''error'', JStr msg)]"
    using refreshBotCache_failed [OF assms(4)] by blast
  then obtain evs where r: "refreshBotCache env tenantContext
            = ([(''success'', JBool False), (''error'', JStr msg)], evs)"
    by (cases "refreshBotCache env tenantContext") simp
  show ?thesis
    using assms(1-3) m r
    by (simp add: startScrape_def runUpdater_def jobSucceeded_def obj_get_def Let_def)
qed

theorem signal_failure_isolated_witness:
  "fst (refreshBotCache (acme_env acme_context) acme_context)
     = [(''success'', JBool False), (''error'', JStr ''connect ECONNREFUSED'')]
   \<and> status (fst (startScrape (acme_env acme_context) acme_request)) = 200
   \<and> obj_get (body (fst (startScrape (acme_env acme_context) acme_request))) ''success''
       = JBool True
   \<and> obj_get (body (fst (startScrape (acme_env acme_context) acme_request))) ''cacheRefreshed''
       = JBool False
   \<and> obj_get (body (fst (runUpdater (acme_env acme_context) acme_request))) ''cacheRefreshed''
       = JBool False"
proof -
  have a: "\<not> accessDenied acme_request"
    by (simp add: accessDenied_def acme_request_def)
  have b: "getUserTenantContext (acme_env acme_context) (effectiveUserId acme_request)
             = Inr acme_context"
    by (simp add: acme_env_def)
  have c: "ensureTenantResources acme_context = Inr ()"
    by (simp add: ensureTenantResources_def acme_context_def falsy_str_def)
  have d: "(\<exists>err. axios_post (acme_env acme_context)
                     (markDataUpdated (acme_env acme_context) acme_context) = Inl err)
         \<or> (\<exists>data. axios_post (acme_env acme_context)
                     (markDataUpdated (acme_env acme_context) acme_context) = Inr data
               \<and> \<not> (truthy data \<and> get_prop data ''status'' = JStr ''success''))"
    by (simp add: acme_env_def)
  have e: "fst (refreshBotCache (acme_env acme_context) acme_context)
     = [(''success'', JBool False), (''error'', JStr ''connect ECONNREFUSED'')]"
    by (simp add: refreshBotCache_def acme_env_def mk_error_def)
  have f: "runTenantScrape (acme_env acme_context)
             (scrapeOptions (acme_env acme_context) acme_request acme_context) = Inr acme_result"
    "runTenantUpdater (acme_env acme_context)
             (updaterOptions (acme_env acme_context) acme_request acme_context) = Inr acme_result"
    by (simp_all add: acme_env_def)
  show ?thesis
    using signal_failure_isolated [OF a b c d] e f by simp
qed

text \<open>
  Claim C9.  \<open>refreshBotCache\<close> never returns a \<open>documentCount\<close>, whatever the bot
  service replies, so the \<open>documentCount\<close> of every response of \<open>startScrape\<close> and
  \<open>runUpdater\<close> is \<open>undefined\<close> and the key is absent from the serialized JSON.
\<close>

theorem documentCount_never_reported:
  "obj_get (fst (refreshBotCache env tenantContext)) ''documentCount'' = JUndefined
   \<and> obj_get (body (fst (startScrape env req))) ''documentCount'' = JUndefined
   \<and> ''documentCount'' \<notin> set (json_keys (body (fst (startScrape env req))))
   \<and> obj_get (body (fst (runUpdater env req))) ''documentCount'' = JUndefined
   \<and> ''documentCount'' \<notin> set (json_keys (body (fst (runUpdater env req))))"
proof -
  have r: "obj_get (fst (refreshBotCache env c)) ''documentCount'' = JUndefined" for c
    by (simp add: refreshBotCache_def obj_get_def Let_def split: sum.splits)
  have f: "obj_get (body (jobFailed err)) ''documentCount'' = JUndefined
           \<and> ''documentCount'' \<notin> set (json_keys (body (jobFailed err)))" for err
    by (simp add: jobFailed_def obj_get_def json_keys_def)
  have s: "obj_get (body (jobSucceeded j c res (fst (refreshBotCache env c)))) ''documentCount''
             = JUndefined
           \<and> ''documentCount'' \<notin> set (json_keys
                 (body (jobSucceeded j c res (fst (refreshBotCache env c)))))" for j c res
    using r [of c] by (simp add: jobSucceeded_def obj_get_def json_keys_def)
  have d: "obj_get [(''success'', JBool False), (''error'', JStr msg)] ''documentCount''
             = JUndefined
           \<and> ''documentCount'' \<notin> set (json_keys [(''success'', JBool False), (''error'', JStr msg)])"
    for msg
    by (simp add: obj_get_def json_keys_def)
  have "obj_get (body (fst (startScrape env req))) ''documentCount'' = JUndefined
        \<and> ''documentCount'' \<notin> set (json_keys (body (fst (startScrape env req))))"
    using f s d
    by (simp add: startScrape_def Let_def split_beta split: sum.splits)
  moreover
  have "obj_get (body (fst (runUpdater env req))) ''documentCount'' = JUndefined
        \<and> ''documentCount'' \<notin> set (json_keys (body (fst (runUpdater env req))))"
    using f s d
    by (simp add: runUpdater_def Let_def split_beta split: sum.splits)
  ultimately show ?thesis
    using r by simp
qed

subsection \<open>The resource guard\<close>

text \<open>
  Claim C3.  For a request that passes the access check and whose tenant context is
  resolved: if the index path or the resource id of the context is absent or empty, the
  guard throws an error with \<open>statusCode\<close> 503, both handlers answer with that status
  and \<open>success: false\<close>, and neither job capability nor the signal is called; if both
  fields are present and non-empty, the guard does not throw.
\<close>

theorem guard_precedes_dispatch:
  assumes "\<not> accessDenied req"
    and "getUserTenantContext env (effectiveUserId req) = Inr tenantContext"
  shows "(falsy_str (ctx_vectorStorePath tenantContext) \<or> falsy_str (ctx_resourceId tenantContext)
          \<longrightarrow> (\<exists>err. ensureTenantResources tenantContext = Inl err
                 \<and> err_statusCode err = Some 503
                 \<and> startScrape env req = (jobFailed err, [])
                 \<and> runUpdater env req = (jobFailed err, [])
                 \<and> status (jobFailed err) = 503
                 \<and> obj_get (body (jobFailed err)) ''success'' = JBool False))
    \<and> (\<not> falsy_str (ctx_vectorStorePath tenantContext)
        \<and> \<not> falsy_str (ctx_resourceId tenantContext)
          \<longrightarrow> ensureTenantResources tenantContext = Inr ())"
  using assms
  by (simp add: ensureTenantResources_def startScrape_def runUpdater_def jobFailed_def
        obj_get_def mk_error_def)

theorem guard_precedes_dispatch_witness:
  "startScrape (acme_env (acme_context \<lparr> ctx_vectorStorePath := Some [] \<rparr>)) acme_request
     = (\<lparr> status = 503,
          body = [(''success'', JBool False),
                  (''error'', JStr ''Tenant resources are incomplete. Re-provision before running scrape.''),
                  (''code'', JUndefined), (''summary'', JNull)] \<rparr>, [])
   \<and> snd (runUpdater (acme_env (acme_context \<lparr> ctx_resourceId := None \<rparr>)) acme_request) = []
   \<and> ensureTenantResources acme_context = Inr ()"
proof -
  have a: "\<not> accessDenied acme_request"
    by (simp add: accessDenied_def acme_request_def)
  have b: "getUserTenantContext (acme_env c) (effectiveUserId acme_request) = Inr c" for c
    by (simp add: acme_env_def)
  have c: "falsy_str (ctx_vectorStorePath (acme_context \<lparr> ctx_vectorStorePath := Some [] \<rparr>))"
    "falsy_str (ctx_resourceId (acme_context \<lparr> ctx_resourceId := None \<rparr>))"
    "\<not> falsy_str (ctx_vectorStorePath acme_context)"
    "\<not> falsy_str (ctx_resourceId acme_context)"
    by (simp_all add: falsy_str_def acme_context_def)
  show ?thesis
    using guard_precedes_dispatch [OF a b, of "acme_context \<lparr> ctx_vectorStorePath := Some [] \<rparr>"]
      guard_precedes_dispatch [OF a b, of "acme_context \<lparr> ctx_resourceId := None \<rparr>"]
      guard_precedes_dispatch [OF a b, of acme_context] c
    by (auto simp: ensureTenantResources_def jobFailed_def mk_error_def)
qed

subsection \<open>The data-store override of update jobs\<close>

text \<open>
  Claim C8 as stated fails: a request whose \<open>mongoUri\<close> is the non-empty string of one
  space launches the updater against the context's \<open>databaseUri\<close>, not against the
  string supplied.
\<close>

theorem mongoUri_override_counterexample:
  "b_mongoUri (req_body acme_request) = JStr '' ''
   \<and> snd (runUpdater (acme_env acme_context) acme_request)
       = [UpdaterDispatched (updaterOptions (acme_env acme_context) acme_request acme_context),
          BotNotified (markDataUpdated (acme_env acme_context) acme_context)]
   \<and> o_mongoUri (updaterOptions (acme_env acme_context) acme_request acme_context)
       = Some ''mongodb://db/acme_7f3a''
   \<and> o_mongoUri (updaterOptions (acme_env acme_context) acme_request acme_context)
       \<noteq> Some '' ''"
  by (simp add: runUpdater_def accessDenied_def acme_request_def acme_env_def
        ensureTenantResources_def acme_context_def falsy_str_def refreshBotCache_def
        updaterOptions_def effectiveMongoUri_def or_str_def trimmedString_def acme_body_def
        js_trim_def js_space_def Let_def)

text \<open>
  Claim C8, amended.  The updater is launched against the trimmed \<open>mongoUri\<close> of the
  request body when that is a string and non-empty after trimming, and against the
  \<open>databaseUri\<close> of the resolved context otherwise; it is launched once, for a request
  that passes the access check and the guard.  The response and the calls of
  \<open>startScrape\<close> do not depend on the \<open>mongoUri\<close> of the body.
\<close>

theorem mongoUri_override_trimmed:
  "o_mongoUri (updaterOptions env req tenantContext) =
     (case b_mongoUri (req_body req) of
        JStr s \<Rightarrow> if js_trim s \<noteq> [] then Some (js_trim s) else ctx_databaseUri tenantContext
      | _ \<Rightarrow> ctx_databaseUri tenantContext)
   \<and> (\<not> accessDenied req
        \<and> getUserTenantContext env (effectiveUserId req) = Inr tenantContext
        \<and> ensureTenantResources tenantContext = Inr ()
       \<longrightarrow> filter is_dispatch (snd (runUpdater env req))
             = [UpdaterDispatched (updaterOptions env req tenantContext)])
   \<and> startScrape env (req \<lparr> req_body := (req_body req) \<lparr> b_mongoUri := v \<rparr> \<rparr>)
       = startScrape env req"
proof -
  have "o_mongoUri (updaterOptions env req tenantContext) =
     (case b_mongoUri (req_body req) of
        JStr s \<Rightarrow> if js_trim s \<noteq> [] then Some (js_trim s) else ctx_databaseUri tenantContext
      | _ \<Rightarrow> ctx_databaseUri tenantContext)"
    by (simp add: updaterOptions_def effectiveMongoUri_def or_str_def trimmedString_def
          falsy_str_def split: jsval.splits)
  moreover
  have "\<not> accessDenied req
        \<and> getUserTenantContext env (effectiveUserId req) = Inr tenantContext
        \<and> ensureTenantResources tenantContext = Inr ()
       \<longrightarrow> filter is_dispatch (snd (runUpdater env req))
             = [UpdaterDispatched (updaterOptions env req tenantContext)]"
    by (simp add: runUpdater_def refreshBotCache_def Let_def split: sum.splits)
  moreover
  have "startScrape env (req \<lparr> req_body := (req_body req) \<lparr> b_mongoUri := v \<rparr> \<rparr>)
       = startScrape env req"
  proof -
    have "scrapeOptions env (req \<lparr> req_body := (req_body req) \<lparr> b_mongoUri := v \<rparr> \<rparr>) c
            = scrapeOptions env req c" for c
      by (simp add: scrapeOptions_def)
    then show ?thesis
      by (simp add: startScrape_def accessDenied_def effectiveUserId_def
            cong del: sum.case_cong_weak)
  qed
  ultimately show ?thesis by simp
qed

theorem mongoUri_override_trimmed_witness:
  "o_mongoUri (updaterOptions (acme_env acme_context) acme_request acme_context)
     = Some ''mongodb://db/acme_7f3a''
   \<and> o_mongoUri (updaterOptions (acme_env acme_context)
         (acme_request \<lparr> req_body := acme_body \<lparr> b_mongoUri := JStr '' mongodb://other '' \<rparr> \<rparr>)
         acme_context)
     = Some ''mongodb://other''
   \<and> filter is_dispatch (snd (runUpdater (acme_env acme_context) acme_request))
     = [UpdaterDispatched (updaterOptions (acme_env acme_context) acme_request acme_context)]"
proof -
  have a: "\<not> accessDenied acme_request"
    by (simp add: accessDenied_def acme_request_def)
  have b: "getUserTenantContext (acme_env acme_context) (effectiveUserId acme_request)
             = Inr acme_context"
    by (simp add: acme_env_def)
  have c: "ensureTenantResources acme_context = Inr ()"
    by (simp add: ensureTenantResources_def acme_context_def falsy_str_def)
  have t: "js_trim '' '' = []" "js_trim '' mongodb://other '' = ''mongodb://other''"
    by (simp_all add: js_trim_def js_space_def)
  show ?thesis
    using mongoUri_override_trimmed [of "acme_env acme_context" acme_request acme_context]
      mongoUri_override_trimmed [of "acme_env acme_context"
        "acme_request \<lparr> req_body := acme_body \<lparr> b_mongoUri := JStr '' mongodb://other '' \<rparr> \<rparr>"
        acme_context]
      a b c t
    by (simp add: acme_request_def acme_body_def acme_context_def)
qed

section \<open>Properties of the user controller\<close>

subsection \<open>Reasoning along the branches of a handler\<close>

text \<open>
  A property of a handler is proved branch by branch: it holds of a \<open>case\<close> or an
  \<open>if\<close> when it holds of every branch, under the equation that selects the branch.
\<close>

lemma sum_caseI:
  "(\<And>e. x = Inl e \<Longrightarrow> P (f e)) \<Longrightarrow> (\<And>v. x = Inr v \<Longrightarrow> P (g v)) \<Longrightarrow> P (case_sum f g x)"
  by (cases x) simp_all

lemma option_caseI:
  "(x = None \<Longrightarrow> P a) \<Longrightarrow> (\<And>v. x = Some v \<Longrightarrow> P (g v)) \<Longrightarrow> P (case_option a g x)"
  by (cases x) simp_all

lemma prod_caseI:
  "(\<And>a b. x = (a, b) \<Longrightarrow> P (f a b)) \<Longrightarrow> P (case_prod f x)"
  by (cases x) simp

lemma if_caseI:
  "(c \<Longrightarrow> P a) \<Longrightarrow> (\<not> c \<Longrightarrow> P b) \<Longrightarrow> P (if c then a else b)"
  by simp


subsection \<open>Objects and the store\<close>

lemma obj_get_obj_set: "obj_get (obj_set d k v) k' = (if k' = k then v else obj_get d k')"
  by (induction d k v rule: obj_set.induct) (auto simp: obj_get_def)

lemma keys_obj_set: "fst ` set (obj_set d k v) = insert k (fst ` set d)"
  by (induction d k v rule: obj_set.induct) auto

lemma obj_get_applySet_kept:
  "k \<notin> set schemaPaths \<or> k \<in> set immutablePaths \<Longrightarrow>
   obj_get (applySet doc updates) k = obj_get doc k"
  unfolding applySet_def
  by (induction updates arbitrary: doc) (auto simp: obj_get_obj_set)

lemma map_replaceFirst:
  "find P xs = Some x \<Longrightarrow> f y = f x \<Longrightarrow> map f (replaceFirst P y xs) = map f xs"
  by (induction xs) (auto split: if_splits)

lemma findByIdAndUpdate_keeps:
  assumes "findByIdAndUpdate env us i updates = Inr (r, us')"
  shows "map (\<lambda>doc. (obj_get doc ''_id'', obj_get doc ''resourceId'')) us'
           = map (\<lambda>doc. (obj_get doc ''_id'', obj_get doc ''resourceId'')) us"
proof -
  from assms obtain c where c: "castObjectId env i = Some c"
    by (auto simp: findByIdAndUpdate_def split: option.splits)
  show ?thesis
  proof (cases "find (hasId c) us")
    case None
    with assms c show ?thesis
      by (simp add: findByIdAndUpdate_def split: option.splits)
  next
    case (Some doc)
    have "(obj_get (applySet doc updates) ''_id'', obj_get (applySet doc updates) ''resourceId'')
            = (obj_get doc ''_id'', obj_get doc ''resourceId'')"
      by (simp add: obj_get_applySet_kept schemaPaths_def immutablePaths_def)
    with Some assms c show ?thesis
      by (auto simp: findByIdAndUpdate_def map_replaceFirst split: option.splits)
  qed
qed

lemma setIfTruthy_shape:
  "setIfTruthy k v f u = Inl typeError \<or> setIfTruthy k v f u = Inr u
   \<or> (\<exists>x. setIfTruthy k v f u = Inr (obj_set u k x))"
  by (cases v) (auto simp: setIfTruthy_def)

lemma setIfTruthy_keys:
  assumes "setIfTruthy k v f u = Inr u'"
  shows "fst ` set u' \<subseteq> insert k (fst ` set u)"
proof -
  have "u' = u \<or> (\<exists>x. u' = obj_set u k x)"
    using setIfTruthy_shape [of k v f u] assms by auto
  then show ?thesis
    using keys_obj_set [of u k] by auto
qed

lemma profile_keys:
  assumes "setIfTruthy ''name'' name js_trim [] = Inr u1"
    and "setIfTruthy ''email'' email lowerTrim u1 = Inr u2"
    and "setIfTruthy ''username'' username js_trim u2 = Inr u3"
  shows "fst ` set u3 \<subseteq> {''username'', ''email'', ''name''}"
proof -
  have a: "fst ` set u1 \<subseteq> {''name''}"
    using setIfTruthy_keys [OF assms(1)] by simp
  have b: "fst ` set u2 \<subseteq> {''email'', ''name''}"
    by (rule order_trans [OF setIfTruthy_keys [OF assms(2)] insert_mono [OF a]])
  show ?thesis
    by (rule order_trans [OF setIfTruthy_keys [OF assms(3)] insert_mono [OF b]])
qed

lemma keys_with_password:
  assumes "fst ` set u \<subseteq> K"
  shows "fst ` set (obj_set u ''password'' v) \<subseteq> insert ''password'' K"
    and "fst ` set u \<subseteq> insert ''password'' K"
  using assms by (simp_all add: keys_obj_set subset_insertI2)


subsection \<open>The status of the responses\<close>

lemma catchWith_not_200: "catchWith dup generic err \<noteq> respond 200 b"
  by (simp add: catchWith_def respond_def split: option.splits list.splits)

lemma errors_not_200:
  "userNotFound \<noteq> respond 200 b"
  "usernameTaken \<noteq> respond 200 b"
  "emailInUseByAnother \<noteq> respond 200 b"
  "emailInUseUnderAdmin \<noteq> respond 200 b"
  "passwordError \<noteq> respond 200 b"
  "denyUpdateOthers \<noteq> respond 200 b"
  "denyUpdateNotOwn \<noteq> respond 200 b"
  "denyDeleteOthers \<noteq> respond 200 b"
  "denyDeleteByUser \<noteq> respond 200 b"
  "denySelfDelete \<noteq> respond 200 b"
  "deleteFailed \<noteq> respond 200 b"
  "Unhandled err \<noteq> respond 200 b"
  by (simp_all add: userNotFound_def usernameTaken_def emailInUseByAnother_def
        emailInUseUnderAdmin_def emailInUse_def passwordError_def denyUpdateOthers_def
        denyUpdateNotOwn_def denyDeleteOthers_def denyDeleteByUser_def denySelfDelete_def
        deleteFailed_def respond_def)

lemma failures_not_200:
  "updateFailed err \<noteq> respond 200 b"
  "updateUserFailed err \<noteq> respond 200 b"
  by (simp_all add: updateFailed_def updateUserFailed_def catchWith_not_200)

lemma successes_200:
  "\<exists>b. profileUpdated responseUser = respond 200 b"
  "\<exists>b. userUpdated updatedUser = respond 200 b"
  "\<exists>b. userDeleted = respond 200 b"
  unfolding profileUpdated_def userUpdated_def userDeleted_def by blast+

subsection \<open>What a handler leaves behind\<close>

text \<open>
  Each mutating handler either leaves the world as it was, records no call and answers
  with a status other than 200, or answers 200 after one write followed by the
  invalidation of the written identity.
\<close>

lemma updateMeTry_shape:
  "(\<exists>out. updateMeTry env w req updates = (out, w, []) \<and> (\<forall>b. out \<noteq> respond 200 b))
   \<or> (\<exists>b us updated.
        updateMeTry env w req updates
          = (respond 200 b,
             w \<lparr> users := us,
                 contexts := invalidateUserTenantContext (contexts w) (ur_userId req) \<rparr>,
             [StoreUpdated (ur_userId req) updates, ContextInvalidated (ur_userId req)])
        \<and> findByIdAndUpdate env (users w) (ur_userId req) updates = Inr (Some updated, us))"
proof -
  define ok where "ok = (\<lambda>r :: outcome \<times> world \<times> user_event list.
     (\<exists>out. r = (out, w, []) \<and> (\<forall>b. out \<noteq> respond 200 b))
     \<or> (\<exists>b us updated.
          r = (respond 200 b,
               w \<lparr> users := us,
                   contexts := invalidateUserTenantContext (contexts w) (ur_userId req) \<rparr>,
               [StoreUpdated (ur_userId req) updates, ContextInvalidated (ur_userId req)])
          \<and> findByIdAndUpdate env (users w) (ur_userId req) updates = Inr (Some updated, us)))"
  have unchanged: "ok (out, w, [])" if "\<And>b. out \<noteq> respond 200 b" for out
    using that by (simp add: ok_def)
  have written: "ok (profileUpdated x,
               w \<lparr> users := us,
                   contexts := invalidateUserTenantContext (contexts w) (ur_userId req) \<rparr>,
               [StoreUpdated (ur_userId req) updates, ContextInvalidated (ur_userId req)])"
    if "findByIdAndUpdate env (users w) (ur_userId req) updates = Inr (Some updated, us)"
    for x us updated
    using that successes_200 (1) [of x] unfolding ok_def by blast
  have "ok (updateMeTry env w req updates)"
    unfolding updateMeTry_def Let_def
    by (intro sum_caseI [where P = ok] option_caseI [where P = ok]
          prod_caseI [where P = ok] if_caseI [where P = ok] unchanged errors_not_200
          failures_not_200)
       (auto intro: written)
  then show ?thesis
    unfolding ok_def .
qed

lemma updateUserTry_shape:
  "(\<exists>out. updateUserTry env w req updates = (out, w, []) \<and> (\<forall>b. out \<noteq> respond 200 b))
   \<or> (\<exists>b us updated u.
        updateUserTry env w req updates
          = (respond 200 b,
             w \<lparr> users := us,
                 contexts := invalidateUserTenantContext (contexts w) (ur_id req) \<rparr>,
             [StoreUpdated (ur_id req) u, ContextInvalidated (ur_id req)])
        \<and> findByIdAndUpdate env (users w) (ur_id req) u = Inr (Some updated, us)
        \<and> (u = updates \<or> (\<exists>h. u = obj_set updates ''password'' (JStr h))))"
proof -
  define ok where "ok = (\<lambda>r :: outcome \<times> world \<times> user_event list.
     (\<exists>out. r = (out, w, []) \<and> (\<forall>b. out \<noteq> respond 200 b))
     \<or> (\<exists>b us updated u.
          r = (respond 200 b,
               w \<lparr> users := us,
                   contexts := invalidateUserTenantContext (contexts w) (ur_id req) \<rparr>,
               [StoreUpdated (ur_id req) u, ContextInvalidated (ur_id req)])
          \<and> findByIdAndUpdate env (users w) (ur_id req) u = Inr (Some updated, us)
          \<and> (u = updates \<or> (\<exists>h. u = obj_set updates ''password'' (JStr h)))))"
  have unchanged: "ok (out, w, [])" if "\<And>b. out \<noteq> respond 200 b" for out
    using that by (simp add: ok_def)
  have written: "ok (userUpdated updated,
               w \<lparr> users := us,
                   contexts := invalidateUserTenantContext (contexts w) (ur_id req) \<rparr>,
               [StoreUpdated (ur_id req) u, ContextInvalidated (ur_id req)])"
    if "findByIdAndUpdate env (users w) (ur_id req) u = Inr (Some updated, us)"
      and "u = updates \<or> (\<exists>h. u = obj_set updates ''password'' (JStr h))"
    for us updated u
    using that successes_200 (2) [of updated] unfolding ok_def by blast
  have "ok (updateUserTry env w req updates)"
    unfolding updateUserTry_def Let_def
    by (intro sum_caseI [where P = ok] option_caseI [where P = ok]
          prod_caseI [where P = ok] if_caseI [where P = ok] unchanged errors_not_200
          failures_not_200)
       (auto intro!: written split: if_splits sum.splits)
  then show ?thesis
    unfolding ok_def .
qed

lemma updateMe_shape:
  "(\<exists>out. updateMe env w req = (out, w, []) \<and> (\<forall>b. out \<noteq> respond 200 b))
   \<or> (\<exists>b us updated u.
        updateMe env w req
          = (respond 200 b,
             w \<lparr> users := us,
                 contexts := invalidateUserTenantContext (contexts w) (ur_userId req) \<rparr>,
             [StoreUpdated (ur_userId req) u, ContextInvalidated (ur_userId req)])
        \<and> findByIdAndUpdate env (users w) (ur_userId req) u = Inr (Some updated, us)
        \<and> fst ` set u \<subseteq> {''password'', ''username'', ''email'', ''name''})"
proof -
  define K where "K = {''password'', ''username'', ''email'', ''name''}"
  define ok where "ok = (\<lambda>r :: outcome \<times> world \<times> user_event list.
     (\<exists>out. r = (out, w, []) \<and> (\<forall>b. out \<noteq> respond 200 b))
     \<or> (\<exists>b us updated u.
          r = (respond 200 b,
               w \<lparr> users := us,
                   contexts := invalidateUserTenantContext (contexts w) (ur_userId req) \<rparr>,
               [StoreUpdated (ur_userId req) u, ContextInvalidated (ur_userId req)])
          \<and> findByIdAndUpdate env (users w) (ur_userId req) u = Inr (Some updated, us)
          \<and> fst ` set u \<subseteq> K))"
  have step: "ok (updateMeTry env w req u)" if "fst ` set u \<subseteq> K" for u
    using updateMeTry_shape [of env w req u] that
    unfolding ok_def by auto
  have unchanged: "ok (out, w, [])" if "\<And>b. out \<noteq> respond 200 b" for out
    using that by (simp add: ok_def)
  have "ok (updateMe env w req)"
    unfolding updateMe_def Let_def
  proof (intro sum_caseI [where P = ok] if_caseI [where P = ok] unchanged errors_not_200,
      goal_cases)
    case (1 u1 u2 u3 h)
    have "fst ` set u3 \<subseteq> {''username'', ''email'', ''name''}"
      using 1 by (intro profile_keys)
    then show ?case
      unfolding K_def by (intro step [unfolded K_def] keys_with_password)
  next
    case (2 u1 u2 u3)
    have "fst ` set u3 \<subseteq> {''username'', ''email'', ''name''}"
      using 2 by (intro profile_keys)
    then show ?case
      unfolding K_def by (intro step [unfolded K_def] keys_with_password)
  qed
  then show ?thesis
    unfolding ok_def K_def .
qed

lemma updateUser_shape:
  "(\<exists>out. updateUser env w req = (out, w, []) \<and> (\<forall>b. out \<noteq> respond 200 b))
   \<or> (\<exists>b us updated u.
        updateUser env w req
          = (respond 200 b,
             w \<lparr> users := us,
                 contexts := invalidateUserTenantContext (contexts w) (ur_id req) \<rparr>,
             [StoreUpdated (ur_id req) u, ContextInvalidated (ur_id req)])
        \<and> findByIdAndUpdate env (users w) (ur_id req) u = Inr (Some updated, us)
        \<and> fst ` set u \<subseteq> {''password'', ''isActive'', ''username'', ''email'', ''name''})"
proof -
  define K where "K = {''isActive'', ''username'', ''email'', ''name''}"
  define ok where "ok = (\<lambda>r :: outcome \<times> world \<times> user_event list.
     (\<exists>out. r = (out, w, []) \<and> (\<forall>b. out \<noteq> respond 200 b))
     \<or> (\<exists>b us updated u.
          r = (respond 200 b,
               w \<lparr> users := us,
                   contexts := invalidateUserTenantContext (contexts w) (ur_id req) \<rparr>,
               [StoreUpdated (ur_id req) u, ContextInvalidated (ur_id req)])
          \<and> findByIdAndUpdate env (users w) (ur_id req) u = Inr (Some updated, us)
          \<and> fst ` set u \<subseteq> insert ''password'' K))"
  have step: "ok (updateUserTry env w req u)" if "fst ` set u \<subseteq> K" for u
    using updateUserTry_shape [of env w req u] keys_with_password [OF that]
    unfolding ok_def by auto
  have unchanged: "ok (out, w, [])" if "\<And>b. out \<noteq> respond 200 b" for out
    using that by (simp add: ok_def)
  have "ok (updateUser env w req)"
    unfolding updateUser_def Let_def
  proof (intro sum_caseI [where P = ok] unchanged errors_not_200, goal_cases)
    case (1 u1 u2 u3)
    have "fst ` set u3 \<subseteq> {''username'', ''email'', ''name''}"
      using 1 by (intro profile_keys)
    then have "fst ` set (if obj_get (ur_body req) ''isActive'' \<noteq> JUndefined
                 then obj_set u3 ''isActive''
                        (JBool (normalizeBoolean (obj_get (ur_body req) ''isActive'') (JBool True)))
                 else u3) \<subseteq> K"
      unfolding K_def by (simp add: keys_obj_set subset_insertI2)
    then show ?case
      by (rule step)
  qed
  then show ?thesis
    unfolding ok_def K_def .
qed




subsection \<open>When the write is reached\<close>


lemma updateUser_success:
  assumes "setIfTruthy ''name'' (obj_get (ur_body req) ''name'') js_trim [] = Inr u1"
    and "setIfTruthy ''email'' (obj_get (ur_body req) ''email'') lowerTrim u1 = Inr u2"
    and "setIfTruthy ''username'' (obj_get (ur_body req) ''username'') js_trim u2 = Inr u3"
    and "u4 = (if obj_get (ur_body req) ''isActive'' \<noteq> JUndefined
               then obj_set u3 ''isActive''
                      (JBool (normalizeBoolean (obj_get (ur_body req) ''isActive'') (JBool True)))
               else u3)"
    and "findById env (users w) (ur_id req) = Inr (Some userToUpdate)"
    and "\<not> (ur_role req = ''admin'' \<and> truthy (obj_get userToUpdate ''adminId'')
            \<and> obj_get userToUpdate ''adminId'' \<noteq> JStr (ur_userId req))"
    and "\<not> (ur_role req = ''user'' \<and> obj_get userToUpdate ''_id'' \<noteq> JStr (ur_userId req))"
    and "truthy (obj_get u4 ''email'') \<longrightarrow>
           findOne env (users w)
             [(''email'', Eq (obj_get u4 ''email'')),
              (''adminId'', if ur_role req = ''admin'' then EqId (ur_userId req)
                            else Eq (obj_get userToUpdate ''adminId'')),
              (''_id'', NeId (ur_id req))] = Inr None"
    and "truthy (obj_get u4 ''username'') \<longrightarrow>
           findOne env (users w)
             [(''username'', Eq (obj_get u4 ''username'')), (''_id'', NeId (ur_id req))]
           = Inr None"
    and "if truthy (obj_get (ur_body req) ''password'')
         then \<exists>hashed. bcrypt_hash env (obj_get (ur_body req) ''password'') = Inr hashed
                \<and> updates = obj_set u4 ''password'' (JStr hashed)
         else updates = u4"
    and "findByIdAndUpdate env (users w) (ur_id req) updates = Inr (Some updated, us)"
  shows "updateUser env w req
           = (userUpdated updated,
              w \<lparr> users := us,
                  contexts := invalidateUserTenantContext (contexts w) (ur_id req) \<rparr>,
              [StoreUpdated (ur_id req) updates, ContextInvalidated (ur_id req)])"
proof -
  have "updateUserTry env w req u4
           = (userUpdated updated,
              w \<lparr> users := us,
                  contexts := invalidateUserTenantContext (contexts w) (ur_id req) \<rparr>,
              [StoreUpdated (ur_id req) updates, ContextInvalidated (ur_id req)])"
    using assms(5-11) by (auto simp: updateUserTry_def Let_def)
  then show ?thesis
    using assms(1-4) by (simp add: updateUser_def Let_def)
qed


subsection \<open>Evaluation on the example inputs\<close>

lemma example_ids:
  "hexObjectId ada_id = Some ada_id"
  "hexObjectId bob_id = Some bob_id"
  "ada_id \<noteq> bob_id"
  "bob_id \<noteq> ada_id"
  by (simp_all add: hexObjectId_def hexDigit_def toLowerCase_def lower_char_def ada_id_def
        bob_id_def)

lemma example_lookup:
  "findById demo_env (users demo_world) bob_id = Inr (Some bob)"
  "findById demo_env (users demo_world) ada_id = Inr (Some ada)"
  by (simp_all add: findById_def demo_env_def demo_world_def example_ids hasId_def ada_def
        bob_def obj_get_def)

lemma example_update:
  "findByIdAndUpdate demo_env (users demo_world) bob_id updates
     = Inr (Some (applySet bob updates), [ada, applySet bob updates])"
  by (simp add: findByIdAndUpdate_def demo_env_def demo_world_def example_ids hasId_def ada_def
        obj_get_def)
     (simp add: bob_def)


lemma edit_bob_facts:
  "setIfTruthy ''name'' (obj_get (ur_body edit_bob) ''name'') js_trim [] = Inr []"
  "setIfTruthy ''email'' (obj_get (ur_body edit_bob) ''email'') lowerTrim []
     = Inr [(''email'', JStr ''bob@acme.example'')]"
  "setIfTruthy ''username'' (obj_get (ur_body edit_bob) ''username'') js_trim
     [(''email'', JStr ''bob@acme.example'')] = Inr [(''email'', JStr ''bob@acme.example'')]"
  "obj_get (ur_body edit_bob) ''isActive'' = JUndefined"
  "\<not> truthy (obj_get (ur_body edit_bob) ''password'')"
  "ur_userId edit_bob = ada_id" "ur_id edit_bob = bob_id" "ur_role edit_bob = ''admin''"
  "obj_get bob ''adminId'' = JStr ada_id"
  by (simp_all add: edit_bob_def setIfTruthy_def obj_get_def lowerTrim_def js_trim_def
        js_space_def toLowerCase_def lower_char_def bob_def)

lemma edit_bob_updates:
  "obj_get [(''email'', JStr ''bob@acme.example'')] ''email'' = JStr ''bob@acme.example''"
  "obj_get [(''email'', JStr ''bob@acme.example'')] ''username'' = JUndefined"
  by (simp_all add: obj_get_def)

lemma edit_bob_email_free:
  "findOne demo_env (users demo_world)
     [(''email'', Eq (JStr ''bob@acme.example'')), (''adminId'', EqId ada_id),
      (''_id'', NeId bob_id)] = Inr None"
  by (simp add: findOne_def demo_env_def demo_world_def matches_def example_ids ada_def bob_def
        obj_get_def)



lemma updateUser_edit_bob:
  "snd (snd (updateUser demo_env demo_world edit_bob))
     = [StoreUpdated bob_id [(''email'', JStr ''bob@acme.example'')], ContextInvalidated bob_id]"
proof -
  have "updateUser demo_env demo_world edit_bob
          = (userUpdated (applySet bob [(''email'', JStr ''bob@acme.example'')]),
             demo_world
               \<lparr> users := [ada, applySet bob [(''email'', JStr ''bob@acme.example'')]],
                 contexts := invalidateUserTenantContext (contexts demo_world) (ur_id edit_bob) \<rparr>,
             [StoreUpdated (ur_id edit_bob) [(''email'', JStr ''bob@acme.example'')],
              ContextInvalidated (ur_id edit_bob)])"
    by (rule updateUser_success [where ?u1.0 = "[]"
          and ?u2.0 = "[(''email'', JStr ''bob@acme.example'')]"
          and ?u3.0 = "[(''email'', JStr ''bob@acme.example'')]"
          and ?u4.0 = "[(''email'', JStr ''bob@acme.example'')]"
          and userToUpdate = bob])
       (simp_all add: edit_bob_facts example_lookup edit_bob_email_free example_update
          edit_bob_updates)
  then show ?thesis
    by (simp add: edit_bob_facts)
qed

subsection \<open>Invalidation after every write\<close>



subsection \<open>The resource identifier is never rewritten\<close>

text \<open>
  Claim C4.  After \<open>updateMe\<close> and after \<open>updateUser\<close> every stored document has
  the \<open>_id\<close> and the \<open>resourceId\<close> it had before, whatever the request body holds;
  the update set these handlers pass to the store never has a \<open>resourceId\<close> key; the
  schema declares \<open>resourceId\<close> immutable, so a \<open>$set\<close> with any update set leaves
  it as it is.
\<close>

theorem resourceId_never_rewritten:
  "map (\<lambda>doc. (obj_get doc ''_id'', obj_get doc ''resourceId''))
       (users (fst (snd (updateMe env w req))))
     = map (\<lambda>doc. (obj_get doc ''_id'', obj_get doc ''resourceId'')) (users w)
   \<and> map (\<lambda>doc. (obj_get doc ''_id'', obj_get doc ''resourceId''))
       (users (fst (snd (updateUser env w req))))
     = map (\<lambda>doc. (obj_get doc ''_id'', obj_get doc ''resourceId'')) (users w)
   \<and> (\<forall>i u. StoreUpdated i u \<in> set (snd (snd (updateMe env w req)))
              \<longrightarrow> ''resourceId'' \<notin> fst ` set u)
   \<and> (\<forall>i u. StoreUpdated i u \<in> set (snd (snd (updateUser env w req)))
              \<longrightarrow> ''resourceId'' \<notin> fst ` set u)
   \<and> ''resourceId'' \<in> set immutablePaths
   \<and> obj_get (applySet doc updates) ''resourceId'' = obj_get doc ''resourceId''"
proof -
  have k: "''resourceId'' \<notin> {''password'', ''username'', ''email'', ''name''}"
    "''resourceId'' \<notin> {''password'', ''isActive'', ''username'', ''email'', ''name''}"
    by simp_all
  have me: "map (\<lambda>doc. (obj_get doc ''_id'', obj_get doc ''resourceId''))
       (users (fst (snd (updateMe env w req))))
     = map (\<lambda>doc. (obj_get doc ''_id'', obj_get doc ''resourceId'')) (users w)
     \<and> (\<forall>i u. StoreUpdated i u \<in> set (snd (snd (updateMe env w req)))
              \<longrightarrow> ''resourceId'' \<notin> fst ` set u)"
    using updateMe_shape [of env w req] k(1)
    by (elim disjE exE conjE) (auto dest: findByIdAndUpdate_keeps)
  have user: "map (\<lambda>doc. (obj_get doc ''_id'', obj_get doc ''resourceId''))
       (users (fst (snd (updateUser env w req))))
     = map (\<lambda>doc. (obj_get doc ''_id'', obj_get doc ''resourceId'')) (users w)
     \<and> (\<forall>i u. StoreUpdated i u \<in> set (snd (snd (updateUser env w req)))
              \<longrightarrow> ''resourceId'' \<notin> fst ` set u)"
    using updateUser_shape [of env w req] k(2)
    by (elim disjE exE conjE) (auto dest: findByIdAndUpdate_keeps)
  show ?thesis
    using me user
    by (simp add: obj_get_applySet_kept immutablePaths_def)
qed

theorem resourceId_never_rewritten_witness:
  "map (\<lambda>doc. (obj_get doc ''_id'', obj_get doc ''resourceId''))
       (users (fst (snd (updateUser demo_env demo_world edit_bob))))
     = [(JStr ada_id, JStr ''ada_1f2e3d''), (JStr bob_id, JStr ''bob_9c8b7a'')]
   \<and> obj_get (ur_body edit_bob) ''resourceId'' = JStr ''stolen''
   \<and> StoreUpdated bob_id [(''email'', JStr ''bob@acme.example'')]
       \<in> set (snd (snd (updateUser demo_env demo_world edit_bob)))
   \<and> ''resourceId'' \<notin> fst ` set [(''email'', JStr ''bob@acme.example'')]"
  using resourceId_never_rewritten [of demo_env demo_world edit_bob] updateUser_edit_bob
  by (simp add: demo_world_def ada_def bob_def obj_get_def edit_bob_def)

subsection \<open>Provisioning failure\<close>



subsection \<open>Deleting one's own account\<close>



end
